theory Spec2Isabelle
  imports Main "HOL-Library.Word" "HOL-Library.Log_Nat" "HOL-Library.State_Monad"
begin

section \<open>A Direct3D 11 exclusive-fullscreen example: main.cpp as a state monad\<close>

text \<open>
  The program of \<^verbatim>\<open>main.cpp\<close> is glue around the Win32, DXGI and Direct3D 11 interfaces.
  Each function of the source becomes a program over a \<open>world\<close>: the fields of the one
  \<open>MainWindow\<close> object, the static local \<open>Time\<close> of \<open>renderFrame\<close>, the trace of the calls
  the program has issued to the operating system and the graphics runtime, and whether the
  process is still running. What the outside returns (an \<open>HRESULT\<close>, a window handle, the
  next message) is read from an environment \<open>env\<close>, indexed by the number of calls issued so
  far, so every sequence of answers is covered and every definition can be evaluated.
\<close>

subsection \<open>Values of the interfaces\<close>

type_synonym HRESULT = "32 word"
type_synonym UINT = "32 word"
type_synonym LONG = "32 word"
type_synonym WPARAM = "64 word"
type_synonym LPARAM = "64 word"

text \<open>\<^verbatim>\<open>FAILED(hr)\<close> of winerror.h is \<^verbatim>\<open>((HRESULT)(hr)) < 0\<close> on the signed 32-bit value.\<close>

definition FAILED :: "HRESULT \<Rightarrow> bool" where
  "FAILED hr = (sint hr < 0)"

definition S_OK :: HRESULT where
  "S_OK = 0"

text \<open>Constants of the Windows SDK headers the source includes, with the SDK's values.\<close>

definition WM_DESTROY :: UINT where "WM_DESTROY = 0x0002"
definition WM_SIZE :: UINT where "WM_SIZE = 0x0005"
definition WM_QUIT :: UINT where "WM_QUIT = 0x0012"
definition WM_KEYDOWN :: UINT where "WM_KEYDOWN = 0x0100"
definition VK_F11 :: WPARAM where "VK_F11 = 0x7A"
definition WS_POPUP :: UINT where "WS_POPUP = 0x80000000"
definition CW_USEDEFAULT :: LONG where "CW_USEDEFAULT = 0x80000000"
definition DXGI_FORMAT_UNKNOWN :: UINT where "DXGI_FORMAT_UNKNOWN = 0"
definition D3D11_BIND_VERTEX_BUFFER :: UINT where "D3D11_BIND_VERTEX_BUFFER = 0x1"
definition D3D11_BIND_CONSTANT_BUFFER :: UINT where "D3D11_BIND_CONSTANT_BUFFER = 0x4"
definition D3D11_PRIMITIVE_TOPOLOGY_TRIANGLELIST :: UINT where
  "D3D11_PRIMITIVE_TOPOLOGY_TRIANGLELIST = 4"

datatype metric = SM_CXSCREEN | SM_CYSCREEN

text \<open>
  The objects the program holds pointers to. A pointer variable is \<open>Uninit\<close> until it is
  first written (the constructor of \<open>MainWindow\<close> initialises \<open>is_fullscreen\<close> only),
  \<open>Null\<close>, or points to an object.
\<close>

datatype resource =
    TheWindow | ThisMainWindow | Device | DeviceContext | DxgiDevice | DxgiAdapter | DxgiFactory
  | SwapChain | BackBuffer | RenderTargetView | VsBlob | PsBlob | ErrorBlob
  | VertexShader | PixelShader | InputLayout | VertexBuffer | ConstBuffer

datatype ptr = Uninit | Null | Obj resource

definition is_object :: "ptr \<Rightarrow> bool" where
  "is_object p = (case p of Obj r \<Rightarrow> True | Null \<Rightarrow> False | Uninit \<Rightarrow> False)"

text \<open>
  The out-parameter of a creation call: the object when the call succeeded, and a null
  pointer when it failed (the COM rule for out-parameters).
\<close>

definition created :: "HRESULT \<Rightarrow> resource \<Rightarrow> ptr" where
  "created hr r = (if FAILED hr then Null else Obj r)"

record MSG =
  hwnd :: ptr
  message :: UINT
  wParam :: WPARAM
  lParam :: LPARAM

record RECT =
  left :: LONG
  top_edge :: LONG
  right :: LONG
  bottom :: LONG

subsection \<open>Single-precision numbers\<close>

text \<open>
  A \<^verbatim>\<open>float\<close> is kept exactly: the integer \<open>v * 2^30\<close> stands for the binary32 value \<open>v\<close>.
  Every literal of the source and every value the running sum \<open>Time\<close> takes is a multiple
  of \<open>2^-30\<close>. \<open>round_to_f32\<close> rounds a non-negative integer to 24 significant bits, to
  nearest, ties to even: the rounding of a binary32 addition and of the conversion from
  \<^verbatim>\<open>UINT\<close>. \<open>XMMatrixRotationZ\<close> and \<open>XMMatrixTranspose\<close> of DirectXMath stay symbolic.
\<close>

type_synonym f32 = int

definition round_to_f32 :: "nat \<Rightarrow> nat" where
  "round_to_f32 s =
     (let sh = floorlog 2 s - 24; q = s div 2 ^ sh; r = s mod 2 ^ sh
      in if 2 * r < 2 ^ sh \<or> (2 * r = 2 ^ sh \<and> even q) then q * 2 ^ sh else (q + 1) * 2 ^ sh)"

definition f32_add :: "f32 \<Rightarrow> f32 \<Rightarrow> f32" where
  "f32_add a b = sgn (a + b) * int (round_to_f32 (nat \<bar>a + b\<bar>))"

definition f32_of_uint :: "UINT \<Rightarrow> f32" where
  "f32_of_uint n = int (round_to_f32 (unat n)) * 2 ^ 30"

text \<open>The literal \<^verbatim>\<open>0.01f\<close> is the binary32 number \<open>10737418 * 2^-30\<close> (bits 0x3C23D70A).\<close>

definition f32_0_01 :: f32 where
  "f32_0_01 = 10737418"

definition f32_one :: f32 where
  "f32_one = 2 ^ 30"

datatype XMMATRIX = XMMatrixRotationZ f32 | XMMatrixTranspose XMMATRIX

record Vertex =
  position :: "f32 \<times> f32 \<times> f32"
  color :: "f32 \<times> f32 \<times> f32 \<times> f32"

subsection \<open>Calls to the outside, the environment and the world\<close>

text \<open>
  One constructor per function of the outside the program calls, grouped by interface,
  with the arguments the claims are about and what the call returned.
\<close>

datatype window_call =
    GetModuleHandle
  | GetSystemMetrics metric LONG
  | RegisterClass string
  | CreateWindowExA string string UINT LONG LONG LONG LONG ptr
  | ShowWindow ptr bool
  | SetWindowLongPtr ptr
  | GetWindowLongPtr ptr
  | GetClientRect "RECT option"

datatype message_call =
    PeekMessage "MSG option"
  | TranslateMessage MSG
  | DispatchMessage MSG
  | DefWindowProc MSG
  | PostQuitMessage UINT

datatype dxgi_call =
    QueryInterface_IDXGIDevice HRESULT
  | GetAdapter HRESULT
  | GetParent_IDXGIFactory2 HRESULT
  | CreateSwapChainForHwnd ptr HRESULT
  | GetBuffer UINT HRESULT
  | SetFullscreenState bool HRESULT
  | ResizeBuffers UINT UINT UINT UINT UINT HRESULT
  | Present UINT UINT HRESULT

datatype device_call =
    D3D11CreateDevice HRESULT
  | D3DCompile string string HRESULT
  | CreateRenderTargetView ptr HRESULT
  | CreateVertexShader HRESULT
  | CreatePixelShader HRESULT
  | CreateInputLayout HRESULT
  | CreateBuffer UINT UINT "Vertex list option" HRESULT

datatype context_call =
    OMSetRenderTargets ptr
  | RSSetViewports f32 f32
  | IASetInputLayout ptr
  | VSSetConstantBuffers ptr
  | IASetVertexBuffers ptr UINT UINT
  | IASetPrimitiveTopology UINT
  | UpdateSubresource ptr XMMATRIX
  | ClearRenderTargetView ptr "f32 list"
  | VSSetShader ptr
  | PSSetShader ptr
  | Draw UINT UINT

datatype event =
    Window window_call
  | Message message_call
  | Dxgi dxgi_call
  | D3D device_call
  | Context context_call
  | Release ptr
  | Cerr string

text \<open>
  The environment answers the calls. \<open>hr_of e n\<close> is the \<open>HRESULT\<close> of the call that is
  issued when \<open>n\<close> calls are on the trace; \<open>inbox e k\<close> is the message the thread's queue
  holds at the \<open>k\<close>-th \<open>PeekMessage\<close> (\<open>None\<close>: the queue is empty).
\<close>

record env =
  hr_of :: "nat \<Rightarrow> HRESULT"
  error_msgs :: "nat \<Rightarrow> string option"
  screen_cx :: LONG
  screen_cy :: LONG
  hwnd_created :: bool
  inbox :: "nat \<Rightarrow> MSG option"
  client_rect :: "nat \<Rightarrow> RECT option"

text \<open>
  \<open>Exited c\<close>: the program called \<^verbatim>\<open>exit(c)\<close>. \<open>Returned c\<close>: \<open>main\<close> returned \<open>c\<close>.
  \<open>Undefined\<close>: the program called a method through a pointer that points to no object, or
  read a variable that was never written; C++ gives such an execution no meaning, and the
  model says nothing about what follows.
\<close>

datatype status = Running | Exited int | Returned int | Undefined

record world =
  status :: status
  trace :: "event list"
  is_fullscreen :: bool
  hWnd :: ptr
  pRenderTargetView :: ptr
  pDevice :: ptr
  pDeviceContext :: ptr
  pSwapChain :: ptr
  pVertexShader :: ptr
  pPixelShader :: ptr
  pInputLayout :: ptr
  pVertexBuffer :: ptr
  pConstBuffer :: ptr
  Time :: f32
  userdata :: ptr
  quit_posted :: bool
  peeks :: nat

subsection \<open>Statements\<close>

text \<open>
  A program is a state transformer over the world that returns a value. Every statement is
  skipped once the process no longer runs, so a function of the source is the sequence of
  its statements in program order.
  \<open>load\<close> reads a field; \<open>answer\<close> reads the \<open>HRESULT\<close> the next call will return;
  \<open>call\<close> is a call of a free function; \<open>invoke p args\<close> is a method call
  \<^verbatim>\<open>p->f(args)\<close>, undefined unless \<open>p\<close> points to an object and no argument is an
  unwritten variable; \<open>assign\<close> writes fields; \<open>cerr\<close> writes a line to standard error;
  \<open>exit_process\<close> is \<^verbatim>\<open>exit\<close>.
\<close>

type_synonym 'a prog = "(world, 'a) state"

abbreviation return :: "'a \<Rightarrow> 'a prog" where
  "return \<equiv> State_Monad.return"

definition load :: "(world \<Rightarrow> 'a) \<Rightarrow> 'a prog" where
  "load f = State (\<lambda>w. (f w, w))"

definition answer :: "env \<Rightarrow> HRESULT prog" where
  "answer e = load (\<lambda>w. hr_of e (length (trace w)))"

definition call :: "event \<Rightarrow> unit prog" where
  "call ev = State (\<lambda>w. ((), if status w = Running then w\<lparr>trace := trace w @ [ev]\<rparr> else w))"

definition invoke :: "ptr \<Rightarrow> ptr list \<Rightarrow> event \<Rightarrow> unit prog" where
  "invoke p args ev =
     State (\<lambda>w. ((), if status w = Running
                      then (if is_object p \<and> Uninit \<notin> set args
                            then w\<lparr>trace := trace w @ [ev]\<rparr> else w\<lparr>status := Undefined\<rparr>)
                      else w))"

definition assign :: "(world \<Rightarrow> world) \<Rightarrow> unit prog" where
  "assign f = State (\<lambda>w. ((), if status w = Running then f w else w))"

definition cerr :: "string \<Rightarrow> unit prog" where
  "cerr s = call (Cerr s)"

definition exit_process :: "int \<Rightarrow> unit prog" where
  "exit_process c = assign (\<lambda>s. s\<lparr>status := Exited c\<rparr>)"

definition undefined_behaviour :: "unit prog" where
  "undefined_behaviour = assign (\<lambda>s. s\<lparr>status := Undefined\<rparr>)"

text \<open>The world a program leaves, and the events a run from \<open>w\<close> to \<open>w'\<close> has added.\<close>

definition exec :: "'a prog \<Rightarrow> world \<Rightarrow> world" where
  "exec m w = snd (run_state m w)"

definition emitted :: "world \<Rightarrow> world \<Rightarrow> event list" where
  "emitted w w' = drop (length (trace w)) (trace w')"

subsection \<open>MainWindow\<close>

text \<open>
  \<^verbatim>\<open>MainWindow::MainWindow() : is_fullscreen_(false)\<close>, and \<^verbatim>\<open>static float Time = 0.0f\<close>.
  The fields keep the names of the source without the trailing underscore.
\<close>

definition MainWindow :: world where
  "MainWindow =
     \<lparr>status = Running, trace = [], is_fullscreen = False, hWnd = Uninit,
      pRenderTargetView = Uninit, pDevice = Uninit, pDeviceContext = Uninit,
      pSwapChain = Uninit, pVertexShader = Uninit, pPixelShader = Uninit,
      pInputLayout = Uninit, pVertexBuffer = Uninit, pConstBuffer = Uninit,
      Time = 0, userdata = Null, quit_posted = False, peeks = 0\<rparr>"

definition toggleFullscreen :: "env \<Rightarrow> unit prog" where
  "toggleFullscreen e = do {
     assign (\<lambda>s. s\<lparr>is_fullscreen := \<not> is_fullscreen s\<rparr>);
     swapChain \<leftarrow> load pSwapChain;
     isFullscreen \<leftarrow> load is_fullscreen;
     hr \<leftarrow> answer e;
     invoke swapChain [] (Dxgi (SetFullscreenState isFullscreen hr));
     if FAILED hr then cerr ''Failed to toggle fullscreen mode.'' else return ()
   }"

definition releaseResources :: "ptr \<Rightarrow> unit prog" where
  "releaseResources render_target_view =
     (if render_target_view \<noteq> Null
      then invoke render_target_view [] (Release render_target_view) else return ())"

definition resizeSwapChain :: "env \<Rightarrow> UINT \<Rightarrow> UINT \<Rightarrow> HRESULT prog" where
  "resizeSwapChain e width height = do {
     rtv \<leftarrow> load pRenderTargetView;
     releaseResources rtv;
     assign (\<lambda>s. s\<lparr>pRenderTargetView := Null\<rparr>);
     swapChain \<leftarrow> load pSwapChain;
     hr \<leftarrow> answer e;
     invoke swapChain [] (Dxgi (ResizeBuffers 0 width height DXGI_FORMAT_UNKNOWN 0 hr));
     if FAILED hr then return hr else do {
       hr \<leftarrow> answer e;
       let backBuffer = created hr BackBuffer;
       invoke swapChain [] (Dxgi (GetBuffer 0 hr));
       if FAILED hr then return hr else do {
         device \<leftarrow> load pDevice;
         hr \<leftarrow> answer e;
         invoke device [] (D3D (CreateRenderTargetView backBuffer hr));
         assign (\<lambda>s. s\<lparr>pRenderTargetView := created hr RenderTargetView\<rparr>);
         if FAILED hr then do {
           cerr ''Failed to create render target view'';
           return hr
         } else do {
           deviceCtx \<leftarrow> load pDeviceContext;
           rtv \<leftarrow> load pRenderTargetView;
           invoke deviceCtx [] (Context (OMSetRenderTargets rtv));
           invoke backBuffer [] (Release backBuffer);
           invoke deviceCtx []
             (Context (RSSetViewports (f32_of_uint width) (f32_of_uint height)));
           return S_OK
         }
       }
     }
   }"

text \<open>Sizes and literals of the source: \<^verbatim>\<open>sizeof(Vertex)\<close> is 12 + 16 bytes, \<^verbatim>\<open>sizeof(CBUFFER)\<close> 64.\<close>

definition sizeof_Vertex :: UINT where
  "sizeof_Vertex = 28"

definition sizeof_CBUFFER :: UINT where
  "sizeof_CBUFFER = 64"

definition vertices :: "Vertex list" where
  "vertices =
     [\<lparr>position = (0, 2 ^ 29, 0), color = (f32_one, 0, 0, f32_one)\<rparr>,
      \<lparr>position = (2 ^ 29, - (2 ^ 29), 0), color = (0, f32_one, 0, f32_one)\<rparr>,
      \<lparr>position = (- (2 ^ 29), - (2 ^ 29), 0), color = (0, 0, f32_one, f32_one)\<rparr>]"

text \<open>\<^verbatim>\<open>{ 0.0f, 0.2f, 0.4f, 1.0f }\<close>: 0.2f is \<open>13421773 * 2^-26\<close> and 0.4f is \<open>13421773 * 2^-25\<close>.\<close>

definition clearColor :: "f32 list" where
  "clearColor = [0, 13421773 * 2 ^ 4, 13421773 * 2 ^ 5, f32_one]"

definition initD3D :: "env \<Rightarrow> HRESULT prog" where
  "initD3D e = do {
     hr \<leftarrow> answer e;
     call (D3D (D3D11CreateDevice hr));
     assign (\<lambda>s. s\<lparr>pDevice := created hr Device, pDeviceContext := created hr DeviceContext\<rparr>);
     if FAILED hr then do { cerr ''Failed to create device''; return hr } else do {
       device \<leftarrow> load pDevice;
       hr \<leftarrow> answer e;
       let dxgiDevice = created hr DxgiDevice;
       invoke device [] (Dxgi (QueryInterface_IDXGIDevice hr));
       if FAILED hr then do { cerr ''Failed to query IDXGIDevice interface''; return hr }
       else do {
         hr \<leftarrow> answer e;
         let dxgiAdapter = created hr DxgiAdapter;
         invoke dxgiDevice [] (Dxgi (GetAdapter hr));
         if FAILED hr then do { cerr ''Failed to GetAdapter from device''; return hr }
         else do {
           invoke dxgiDevice [] (Release dxgiDevice);
           hr \<leftarrow> answer e;
           let dxgiFactory = created hr DxgiFactory;
           invoke dxgiAdapter [] (Dxgi (GetParent_IDXGIFactory2 hr));
           invoke dxgiAdapter [] (Release dxgiAdapter);
           if FAILED hr then do { cerr ''Failed to IDXGIFactory2 from adapter''; return hr }
           else do {
             h \<leftarrow> load hWnd;
             hr \<leftarrow> answer e;
             invoke dxgiFactory [device, h] (Dxgi (CreateSwapChainForHwnd h hr));
             assign (\<lambda>s. s\<lparr>pSwapChain := created hr SwapChain\<rparr>);
             invoke dxgiFactory [] (Release dxgiFactory);
             if FAILED hr then do { cerr ''Failed to create swapchain''; return hr }
             else do {
               swapChain \<leftarrow> load pSwapChain;
               hr6 \<leftarrow> answer e;
               let backBuffer = created hr6 BackBuffer;
               invoke swapChain [] (Dxgi (GetBuffer 0 hr6));
               hr7 \<leftarrow> answer e;
               invoke device [] (D3D (CreateRenderTargetView backBuffer hr7));
               assign (\<lambda>s. s\<lparr>pRenderTargetView := created hr7 RenderTargetView\<rparr>);
               invoke backBuffer [] (Release backBuffer);
               deviceCtx \<leftarrow> load pDeviceContext;
               rtv \<leftarrow> load pRenderTargetView;
               invoke deviceCtx [] (Context (OMSetRenderTargets rtv));
               invoke deviceCtx []
                 (Context (RSSetViewports (1920 * f32_one) (1080 * f32_one)));
               return hr
             }
           }
         }
       }
     }
   }"

definition initPipeline :: "env \<Rightarrow> HRESULT prog" where
  "initPipeline e = do {
     hr \<leftarrow> answer e;
     errorBlob \<leftarrow> load (\<lambda>w. error_msgs e (length (trace w)));
     let vsBlob = created hr VsBlob;
     call (D3D (D3DCompile ''VSMain'' ''vs_5_0'' hr));
     if FAILED hr then
       (case errorBlob of
          Some text \<Rightarrow> do {
            cerr text;
            invoke (Obj ErrorBlob) [] (Release (Obj ErrorBlob));
            return hr
          }
        | None \<Rightarrow> return hr)
     else do {
       hr \<leftarrow> answer e;
       errorBlob \<leftarrow> load (\<lambda>w. error_msgs e (length (trace w)));
       let psBlob = created hr PsBlob;
       call (D3D (D3DCompile ''PSMain'' ''ps_5_0'' hr));
       if FAILED hr then
         (case errorBlob of
            Some text \<Rightarrow> do {
              cerr text;
              invoke (Obj ErrorBlob) [] (Release (Obj ErrorBlob));
              return hr
            }
          | None \<Rightarrow> return hr)
       else do {
         device \<leftarrow> load pDevice;
         deviceCtx \<leftarrow> load pDeviceContext;
         hr3 \<leftarrow> answer e;
         invoke device [vsBlob] (D3D (CreateVertexShader hr3));
         assign (\<lambda>s. s\<lparr>pVertexShader := created hr3 VertexShader\<rparr>);
         hr4 \<leftarrow> answer e;
         invoke device [psBlob] (D3D (CreatePixelShader hr4));
         assign (\<lambda>s. s\<lparr>pPixelShader := created hr4 PixelShader\<rparr>);
         hr5 \<leftarrow> answer e;
         invoke device [vsBlob] (D3D (CreateInputLayout hr5));
         assign (\<lambda>s. s\<lparr>pInputLayout := created hr5 InputLayout\<rparr>);
         inputLayout \<leftarrow> load pInputLayout;
         invoke deviceCtx [] (Context (IASetInputLayout inputLayout));
         invoke vsBlob [] (Release vsBlob);
         invoke psBlob [] (Release psBlob);
         hr6 \<leftarrow> answer e;
         invoke device []
           (D3D (CreateBuffer D3D11_BIND_CONSTANT_BUFFER sizeof_CBUFFER None hr6));
         assign (\<lambda>s. s\<lparr>pConstBuffer := created hr6 ConstBuffer\<rparr>);
         constBuffer \<leftarrow> load pConstBuffer;
         invoke deviceCtx [] (Context (VSSetConstantBuffers constBuffer));
         return hr
       }
     }
   }"

definition initGraphics :: "env \<Rightarrow> HRESULT prog" where
  "initGraphics e = do {
     device \<leftarrow> load pDevice;
     hr \<leftarrow> answer e;
     invoke device []
       (D3D (CreateBuffer D3D11_BIND_VERTEX_BUFFER
               (of_nat (length vertices) * sizeof_Vertex) (Some vertices) hr));
     assign (\<lambda>s. s\<lparr>pVertexBuffer := created hr VertexBuffer\<rparr>);
     if FAILED hr then do { cerr ''Failed to create buffer''; return hr } else do {
       let stride = sizeof_Vertex;
       let offset = 0;
       deviceCtx \<leftarrow> load pDeviceContext;
       vertexBuffer \<leftarrow> load pVertexBuffer;
       invoke deviceCtx [] (Context (IASetVertexBuffers vertexBuffer stride offset));
       invoke deviceCtx []
         (Context (IASetPrimitiveTopology D3D11_PRIMITIVE_TOPOLOGY_TRIANGLELIST));
       return hr
     }
   }"

definition renderFrame :: "env \<Rightarrow> HRESULT prog" where
  "renderFrame e = do {
     let hr = S_OK;
     assign (\<lambda>s. s\<lparr>Time := f32_add (Time s) f32_0_01\<rparr>);
     t \<leftarrow> load Time;
     let RotationMatrix = XMMatrixRotationZ t;
     let cb = XMMatrixTranspose RotationMatrix;
     deviceCtx \<leftarrow> load pDeviceContext;
     constBuffer \<leftarrow> load pConstBuffer;
     invoke deviceCtx [constBuffer] (Context (UpdateSubresource constBuffer cb));
     rtv \<leftarrow> load pRenderTargetView;
     invoke deviceCtx [rtv] (Context (OMSetRenderTargets rtv));
     invoke deviceCtx [rtv] (Context (ClearRenderTargetView rtv clearColor));
     vertexShader \<leftarrow> load pVertexShader;
     invoke deviceCtx [vertexShader] (Context (VSSetShader vertexShader));
     pixelShader \<leftarrow> load pPixelShader;
     invoke deviceCtx [pixelShader] (Context (PSSetShader pixelShader));
     invoke deviceCtx [] (Context (Draw 3 0));
     swapChain \<leftarrow> load pSwapChain;
     present \<leftarrow> answer e;
     invoke swapChain [] (Dxgi (Present 1 0 present));
     return hr
   }"

definition createWindow :: "env \<Rightarrow> ptr prog" where
  "createWindow e = do {
     call (Window GetModuleHandle);
     let screenWidth = screen_cx e;
     call (Window (GetSystemMetrics SM_CXSCREEN screenWidth));
     let screenHeight = screen_cy e;
     call (Window (GetSystemMetrics SM_CYSCREEN screenHeight));
     call (Window (RegisterClass ''MainWindow''));
     let h = (if hwnd_created e then Obj TheWindow else Null);
     call (Window (CreateWindowExA ''MainWindow'' ''DirectX 11 Triangle'' WS_POPUP
             CW_USEDEFAULT CW_USEDEFAULT screenWidth screenHeight h));
     if h \<noteq> Null then do {
       call (Window (ShowWindow h True));
       call (Window (SetWindowLongPtr h));
       assign (\<lambda>s. s\<lparr>userdata := Obj ThisMainWindow\<rparr>);
       return h
     } else return h
   }"

definition init :: "env \<Rightarrow> bool prog" where
  "init e = do {
     h \<leftarrow> createWindow e;
     assign (\<lambda>s. s\<lparr>hWnd := h\<rparr>);
     hr \<leftarrow> initD3D e;
     if FAILED hr then return False else do {
       hr \<leftarrow> initPipeline e;
       if FAILED hr then return False else do {
         hr \<leftarrow> initGraphics e;
         if FAILED hr then return False else return True
       }
     }
   }"

subsection \<open>The message queue and the window procedure\<close>

text \<open>
  The contract of the thread's message queue: \<^verbatim>\<open>PostQuitMessage\<close> marks the queue, and
  a marked queue that holds no other message hands out \<^verbatim>\<open>WM_QUIT\<close>.
  \<^verbatim>\<open>PeekMessage(&msg, nullptr, 0, 0, PM_REMOVE)\<close> returns the message and removes it,
  or returns nothing and leaves \<open>msg\<close> as it was.
\<close>

definition quit_message :: MSG where
  "quit_message = \<lparr>hwnd = Null, message = WM_QUIT, wParam = 0, lParam = 0\<rparr>"

definition next_message :: "env \<Rightarrow> world \<Rightarrow> MSG option" where
  "next_message e w =
     (case inbox e (peeks w) of
        Some m \<Rightarrow> Some m
      | None \<Rightarrow> if quit_posted w then Some quit_message else None)"

definition peek_message :: "env \<Rightarrow> MSG option prog" where
  "peek_message e = do {
     r \<leftarrow> load (next_message e);
     call (Message (PeekMessage r));
     assign (\<lambda>s. s\<lparr>peeks := Suc (peeks s),
                     quit_posted := (quit_posted s \<and> inbox e (peeks s) \<noteq> None)\<rparr>);
     return r
   }"

definition post_quit_message :: "UINT \<Rightarrow> unit prog" where
  "post_quit_message nExitCode = do {
     call (Message (PostQuitMessage nExitCode));
     assign (\<lambda>s. s\<lparr>quit_posted := True\<rparr>)
   }"

text \<open>
  \<open>WindowProc\<close> reads the \<open>MainWindow\<close> it serves from the window's user data. Its
  \<^verbatim>\<open>LRESULT\<close> goes back to the operating system and is not kept. A \<^verbatim>\<open>RECT\<close> that
  \<^verbatim>\<open>GetClientRect\<close> did not fill is an unwritten variable.
\<close>

definition WindowProc :: "env \<Rightarrow> MSG \<Rightarrow> unit prog" where
  "WindowProc e m = do {
     pWindow \<leftarrow> load userdata;
     call (Window (GetWindowLongPtr pWindow));
     if message m = WM_KEYDOWN then
       (if wParam m = VK_F11 then do {
          (if is_object pWindow then toggleFullscreen e else undefined_behaviour);
          rect \<leftarrow> load (\<lambda>w. client_rect e (length (trace w)));
          call (Window (GetClientRect rect));
          case rect of
            None \<Rightarrow> undefined_behaviour
          | Some r \<Rightarrow> do {
              let width = right r - left r;
              let height = bottom r - top_edge r;
              hr \<leftarrow> resizeSwapChain e width height;
              if FAILED hr then exit_process 1 else return ()
            }
        } else return ())
     else if message m = WM_SIZE then return ()
     else if message m = WM_DESTROY then post_quit_message 0
     else call (Message (DefWindowProc m))
   }"

text \<open>
  \<^verbatim>\<open>DispatchMessage\<close> hands a message of this program's window to \<open>WindowProc\<close>; a message
  of no window (\<^verbatim>\<open>WM_QUIT\<close>) reaches no window procedure.
\<close>

definition dispatch_message :: "env \<Rightarrow> MSG \<Rightarrow> unit prog" where
  "dispatch_message e m = do {
     call (Message (DispatchMessage m));
     h \<leftarrow> load hWnd;
     if is_object h \<and> hwnd m = h then WindowProc e m else return ()
   }"

subsection \<open>The main loop and main\<close>

text \<open>One pass through the body of the \<^verbatim>\<open>while\<close> of \<open>mainloop\<close>; it returns the new \<open>msg\<close>.\<close>

definition mainloop_body :: "env \<Rightarrow> MSG \<Rightarrow> MSG prog" where
  "mainloop_body e msg = do {
     r \<leftarrow> peek_message e;
     case r of
       Some m \<Rightarrow> do {
         call (Message (TranslateMessage m));
         dispatch_message e m;
         return m
       }
     | None \<Rightarrow> do {
         hr \<leftarrow> renderFrame e;
         return msg
       }
   }"

text \<open>
  The loop may run for ever (no message ever arrives and a frame is drawn each time), so
  it takes fuel: \<open>None\<close> means the loop was still running when the fuel ran out. A process
  that stopped inside the body runs no further pass.
\<close>

fun mainloop_while :: "nat \<Rightarrow> env \<Rightarrow> MSG \<Rightarrow> world \<Rightarrow> world option" where
  "mainloop_while 0 e msg w =
     (if message msg = WM_QUIT \<or> status w \<noteq> Running then Some w else None)"
| "mainloop_while (Suc n) e msg w =
     (if message msg = WM_QUIT \<or> status w \<noteq> Running then Some w
      else (case run_state (mainloop_body e msg) w of (msg', w') \<Rightarrow> mainloop_while n e msg' w'))"

text \<open>\<^verbatim>\<open>MSG msg = {};\<close> then the loop.\<close>

definition mainloop :: "nat \<Rightarrow> env \<Rightarrow> world \<Rightarrow> world option" where
  "mainloop fuel e w =
     mainloop_while fuel e \<lparr>hwnd = Null, message = 0, wParam = 0, lParam = 0\<rparr> w"

text \<open>\<^verbatim>\<open>window.init(); window.mainloop(); return 0;\<close> The result of \<open>init\<close> is dropped.\<close>

definition main :: "nat \<Rightarrow> env \<Rightarrow> world option" where
  "main fuel e =
     (case run_state (init e) MainWindow of
        (ok, w1) \<Rightarrow>
          (case mainloop fuel e w1 of
             None \<Rightarrow> None
           | Some w2 \<Rightarrow> Some (exec (assign (\<lambda>s. s\<lparr>status := Returned 0\<rparr>)) w2)))"

section \<open>What the claims observe\<close>

subsection \<open>Observations on worlds and traces\<close>

text \<open>The code the process exited with, if it called \<^verbatim>\<open>exit\<close>.\<close>

definition exit_code :: "world \<Rightarrow> int option" where
  "exit_code w = (case status w of Exited c \<Rightarrow> Some c | _ \<Rightarrow> None)"

text \<open>
  The fullscreen state of the swapchain as the program's calls determine it: a swapchain
  starts windowed, a \<^verbatim>\<open>SetFullscreenState\<close> that succeeds sets the state it was given, and
  one that fails leaves the state as it was (the contract of
  \<^verbatim>\<open>IDXGISwapChain::SetFullscreenState\<close>).
\<close>

definition is_SetFullscreenState :: "event \<Rightarrow> bool" where
  "is_SetFullscreenState ev =
     (case ev of Dxgi (SetFullscreenState b hr) \<Rightarrow> True | _ \<Rightarrow> False)"

definition apply_fullscreen :: "bool \<Rightarrow> event \<Rightarrow> bool" where
  "apply_fullscreen s ev =
     (case ev of Dxgi (SetFullscreenState b hr) \<Rightarrow> (if FAILED hr then s else b) | _ \<Rightarrow> s)"

definition swapchain_fullscreen :: "event list \<Rightarrow> bool" where
  "swapchain_fullscreen tr = foldl apply_fullscreen False tr"

text \<open>A program keeps an observation when no run of it changes what is observed.\<close>

definition preserves :: "(world \<Rightarrow> 'b) \<Rightarrow> 'a prog \<Rightarrow> bool" where
  "preserves obs m = (\<forall>w. obs (exec m w) = obs w)"

subsection \<open>Environments and worlds to run the program on\<close>

definition E_FAIL :: HRESULT where
  "E_FAIL = 0x80004005"

text \<open>
  \<open>env_with hr msgs\<close>: a 1920 by 1080 screen, the window is created, the calls return
  what \<open>hr\<close> says and the queue holds what \<open>msgs\<close> says. In \<open>env_ok\<close> every call succeeds
  and no message ever arrives.
\<close>

definition env_with :: "(nat \<Rightarrow> HRESULT) \<Rightarrow> (nat \<Rightarrow> MSG option) \<Rightarrow> env" where
  "env_with hr msgs =
     \<lparr>hr_of = hr, error_msgs = (\<lambda>n. None), screen_cx = 1920, screen_cy = 1080,
      hwnd_created = True, inbox = msgs,
      client_rect = (\<lambda>n. Some \<lparr>left = 0, top_edge = 0, right = 1920, bottom = 1080\<rparr>)\<rparr>"

definition env_ok :: env where
  "env_ok = env_with (\<lambda>n. S_OK) (\<lambda>k. None)"

definition failing_at :: "nat \<Rightarrow> nat \<Rightarrow> HRESULT" where
  "failing_at k n = (if n = k then E_FAIL else S_OK)"

definition key_down :: "WPARAM \<Rightarrow> MSG" where
  "key_down k = \<lparr>hwnd = Obj TheWindow, message = WM_KEYDOWN, wParam = k, lParam = 0\<rparr>"


text \<open>The world \<open>init\<close> leaves when every call succeeds: 33 calls, every pointer set.\<close>

definition ready :: world where
  "ready =
     \<lparr>status = Running,
      trace =
        [Window GetModuleHandle,
         Window (GetSystemMetrics SM_CXSCREEN 1920),
         Window (GetSystemMetrics SM_CYSCREEN 1080),
         Window (RegisterClass ''MainWindow''),
         Window (CreateWindowExA ''MainWindow'' ''DirectX 11 Triangle'' WS_POPUP
                   CW_USEDEFAULT CW_USEDEFAULT 1920 1080 (Obj TheWindow)),
         Window (ShowWindow (Obj TheWindow) True),
         Window (SetWindowLongPtr (Obj TheWindow)),
         D3D (D3D11CreateDevice S_OK),
         Dxgi (QueryInterface_IDXGIDevice S_OK),
         Dxgi (GetAdapter S_OK),
         Release (Obj DxgiDevice),
         Dxgi (GetParent_IDXGIFactory2 S_OK),
         Release (Obj DxgiAdapter),
         Dxgi (CreateSwapChainForHwnd (Obj TheWindow) S_OK),
         Release (Obj DxgiFactory),
         Dxgi (GetBuffer 0 S_OK),
         D3D (CreateRenderTargetView (Obj BackBuffer) S_OK),
         Release (Obj BackBuffer),
         Context (OMSetRenderTargets (Obj RenderTargetView)),
         Context (RSSetViewports (1920 * f32_one) (1080 * f32_one)),
         D3D (D3DCompile ''VSMain'' ''vs_5_0'' S_OK),
         D3D (D3DCompile ''PSMain'' ''ps_5_0'' S_OK),
         D3D (CreateVertexShader S_OK),
         D3D (CreatePixelShader S_OK),
         D3D (CreateInputLayout S_OK),
         Context (IASetInputLayout (Obj InputLayout)),
         Release (Obj VsBlob),
         Release (Obj PsBlob),
         D3D (CreateBuffer D3D11_BIND_CONSTANT_BUFFER sizeof_CBUFFER None S_OK),
         Context (VSSetConstantBuffers (Obj ConstBuffer)),
         D3D (CreateBuffer D3D11_BIND_VERTEX_BUFFER
                (of_nat (length vertices) * sizeof_Vertex) (Some vertices) S_OK),
         Context (IASetVertexBuffers (Obj VertexBuffer) sizeof_Vertex 0),
         Context (IASetPrimitiveTopology D3D11_PRIMITIVE_TOPOLOGY_TRIANGLELIST)],
      is_fullscreen = False, hWnd = Obj TheWindow,
      pRenderTargetView = Obj RenderTargetView, pDevice = Obj Device,
      pDeviceContext = Obj DeviceContext, pSwapChain = Obj SwapChain,
      pVertexShader = Obj VertexShader, pPixelShader = Obj PixelShader,
      pInputLayout = Obj InputLayout, pVertexBuffer = Obj VertexBuffer,
      pConstBuffer = Obj ConstBuffer, Time = 0, userdata = Obj ThisMainWindow,
      quit_posted = False, peeks = 0\<rparr>"

subsection \<open>Frames\<close>

text \<open>
  The four steps of a frame, and the step a call stands for: \<^verbatim>\<open>UpdateSubresource\<close> updates
  the constant buffer, \<^verbatim>\<open>ClearRenderTargetView\<close> clears the render target, \<^verbatim>\<open>Draw\<close> draws
  and \<^verbatim>\<open>Present\<close> presents. Every other call is no step.
\<close>

datatype frame_step = Update_constants | Clear_target | Draw_triangle | Present_frame

definition step_of :: "event \<Rightarrow> frame_step option" where
  "step_of ev =
     (case ev of
        Context (UpdateSubresource p m) \<Rightarrow> Some Update_constants
      | Context (ClearRenderTargetView p c) \<Rightarrow> Some Clear_target
      | Context (Draw n k) \<Rightarrow> Some Draw_triangle
      | Dxgi (Present a b hr) \<Rightarrow> Some Present_frame
      | _ \<Rightarrow> None)"

definition frame_steps :: "event list \<Rightarrow> frame_step list" where
  "frame_steps tr = List.map_filter step_of tr"

text \<open>
  Every call of \<open>renderFrame\<close> is defined in a world where the process runs, the device
  context and the swapchain exist and the four pointers the frame passes on were written.
\<close>

definition can_render :: "world \<Rightarrow> bool" where
  "can_render w =
     (status w = Running \<and> is_object (pDeviceContext w) \<and> is_object (pSwapChain w) \<and>
      pConstBuffer w \<noteq> Uninit \<and> pRenderTargetView w \<noteq> Uninit \<and>
      pVertexShader w \<noteq> Uninit \<and> pPixelShader w \<noteq> Uninit)"

text \<open>The calls of the message pump of \<open>mainloop\<close>.\<close>

definition is_pump_call :: "event \<Rightarrow> bool" where
  "is_pump_call ev =
     (case ev of
        Message (PeekMessage r) \<Rightarrow> True
      | Message (TranslateMessage m) \<Rightarrow> True
      | Message (DispatchMessage m) \<Rightarrow> True
      | _ \<Rightarrow> False)"


text \<open>
  The fields the window procedure never writes, and the fields a frame never writes.
\<close>

definition WindowProc_frame ::
  "world \<Rightarrow> f32 \<times> nat \<times> ptr \<times> ptr \<times> ptr \<times> ptr \<times> ptr \<times> ptr \<times> ptr \<times> ptr \<times> ptr \<times> ptr" where
  "WindowProc_frame w =
     (Time w, peeks w, hWnd w, userdata w, pDevice w, pDeviceContext w, pSwapChain w,
      pVertexShader w, pPixelShader w, pInputLayout w, pVertexBuffer w, pConstBuffer w)"

definition renderFrame_frame ::
  "world \<Rightarrow> bool \<times> bool \<times> nat \<times> ptr \<times> ptr \<times> ptr \<times> ptr \<times> ptr \<times> ptr \<times> ptr \<times> ptr \<times> ptr \<times> ptr \<times> ptr" where
  "renderFrame_frame w =
     (is_fullscreen w, quit_posted w, peeks w, hWnd w, userdata w, pDevice w, pDeviceContext w,
      pSwapChain w, pRenderTargetView w, pVertexShader w, pPixelShader w, pInputLayout w,
      pVertexBuffer w, pConstBuffer w)"

text \<open>What the start-up never touches, and the \<open>msg\<close> the loop starts with.\<close>

definition init_frame :: "world \<Rightarrow> f32 \<times> nat \<times> bool \<times> bool \<times> int option" where
  "init_frame w = (Time w, peeks w, quit_posted w, is_fullscreen w, exit_code w)"

definition no_message :: MSG where
  "no_message = \<lparr>hwnd = Null, message = 0, wParam = 0, lParam = 0\<rparr>"

text \<open>
  The trace of a process that \<open>resizeSwapChain\<close> has just failed in: its last call is a
  failed call of \<open>resizeSwapChain\<close>, or the line on standard error that follows one.
\<close>

definition failed_resize_call :: "event \<Rightarrow> bool" where
  "failed_resize_call ev =
     (case ev of
        Dxgi (ResizeBuffers a1 a2 a3 a4 a5 hr) \<Rightarrow> FAILED hr
      | Dxgi (GetBuffer n hr) \<Rightarrow> FAILED hr
      | D3D (CreateRenderTargetView p hr) \<Rightarrow> FAILED hr
      | _ \<Rightarrow> False)"


text \<open>Every run of a program ends with a result and a world that satisfy \<open>Q\<close>.\<close>

definition ensures :: "('a \<Rightarrow> world \<Rightarrow> bool) \<Rightarrow> 'a prog \<Rightarrow> bool" where
  "ensures Q m = (\<forall>w. Q (fst (run_state m w)) (exec m w))"




subsection \<open>Buffers\<close>

text \<open>
  The calls that create a buffer, those that create a constant buffer, and the resources
  that the \<^verbatim>\<open>UpdateSubresource\<close> calls of a trace have written, in order. The program has no
  other call that writes a resource.
\<close>

definition creates_buffer :: "event \<Rightarrow> bool" where
  "creates_buffer ev = (case ev of D3D (CreateBuffer flags bytes content hr) \<Rightarrow> True | _ \<Rightarrow> False)"

definition creates_constant_buffer :: "event \<Rightarrow> bool" where
  "creates_constant_buffer ev =
     (case ev of
        D3D (CreateBuffer flags bytes content hr) \<Rightarrow> flags = D3D11_BIND_CONSTANT_BUFFER
      | _ \<Rightarrow> False)"

definition updated_resource :: "event \<Rightarrow> ptr option" where
  "updated_resource ev = (case ev of Context (UpdateSubresource p m) \<Rightarrow> Some p | _ \<Rightarrow> None)"

definition buffer_updates :: "event list \<Rightarrow> ptr list" where
  "buffer_updates tr = List.map_filter updated_resource tr"


text \<open>A program that keeps an invariant of the world.\<close>

definition keeps :: "(world \<Rightarrow> bool) \<Rightarrow> 'a prog \<Rightarrow> bool" where
  "keeps I m = (\<forall>w. I w \<longrightarrow> I (exec m w))"



subsection \<open>The input assembler\<close>

text \<open>
  The primitive topology and the vertex buffer of the input assembler as the program's
  calls have set them (\<open>None\<close>: never set), and the draw calls of a trace.
\<close>

definition set_topology :: "UINT option \<Rightarrow> event \<Rightarrow> UINT option" where
  "set_topology t ev = (case ev of Context (IASetPrimitiveTopology x) \<Rightarrow> Some x | _ \<Rightarrow> t)"

definition primitive_topology :: "event list \<Rightarrow> UINT option" where
  "primitive_topology tr = foldl set_topology None tr"

definition set_vertex_buffer :: "ptr option \<Rightarrow> event \<Rightarrow> ptr option" where
  "set_vertex_buffer b ev =
     (case ev of Context (IASetVertexBuffers p stride offset) \<Rightarrow> Some p | _ \<Rightarrow> b)"

definition bound_vertex_buffer :: "event list \<Rightarrow> ptr option" where
  "bound_vertex_buffer tr = foldl set_vertex_buffer None tr"

definition draw_call :: "event \<Rightarrow> bool" where
  "draw_call ev = (case ev of Context (Draw n start) \<Rightarrow> True | _ \<Rightarrow> False)"

text \<open>
  The input assembler holds the triangle: the topology is the triangle list and the vertex
  buffer bound is the one the start-up created from the three \<open>vertices\<close>.
\<close>

definition creates_triangle :: "event \<Rightarrow> bool" where
  "creates_triangle ev =
     (case ev of
        D3D (CreateBuffer flags bytes content hr) \<Rightarrow>
          flags = D3D11_BIND_VERTEX_BUFFER \<and> bytes = of_nat (length vertices) * sizeof_Vertex \<and>
          content = Some vertices \<and> \<not> FAILED hr
      | _ \<Rightarrow> False)"

definition triangle_bound :: "world \<Rightarrow> bool" where
  "triangle_bound w =
     (primitive_topology (trace w) = Some D3D11_PRIMITIVE_TOPOLOGY_TRIANGLELIST \<and>
      bound_vertex_buffer (trace w) = Some (Obj VertexBuffer) \<and>
      list_ex creates_triangle (trace w))"

definition graphics_result :: "HRESULT \<Rightarrow> world \<Rightarrow> bool" where
  "graphics_result hr w = (\<not> FAILED hr \<and> status w = Running \<longrightarrow> triangle_bound w)"

definition init_result :: "bool \<Rightarrow> world \<Rightarrow> bool" where
  "init_result ok w = (ok \<and> status w = Running \<longrightarrow> triangle_bound w)"

section \<open>Running the program\<close>

subsection \<open>Single statements\<close>

lemma run_load [simp]: "run_state (load f) w = (f w, w)"
  by (simp add: load_def)

lemma run_answer [simp]: "run_state (answer e) w = (hr_of e (length (trace w)), w)"
  by (simp add: answer_def)

lemma run_call:
  "status w = Running \<Longrightarrow> run_state (call ev) w = ((), w\<lparr>trace := trace w @ [ev]\<rparr>)"
  by (simp add: call_def)

lemma run_cerr:
  "status w = Running \<Longrightarrow> run_state (cerr s) w = ((), w\<lparr>trace := trace w @ [Cerr s]\<rparr>)"
  by (simp add: cerr_def run_call)

lemma run_invoke:
  "status w = Running \<Longrightarrow> is_object p \<Longrightarrow> list_all (\<lambda>x. x \<noteq> Uninit) a \<Longrightarrow>
   run_state (invoke p a ev) w = ((), w\<lparr>trace := trace w @ [ev]\<rparr>)"
  by (auto simp: invoke_def list_all_iff)


lemma run_assign: "status w = Running \<Longrightarrow> run_state (assign f) w = ((), f w)"
  by (simp add: assign_def)

lemma run_stopped:
  "status w \<noteq> Running \<Longrightarrow> run_state (call ev) w = ((), w)"
  "status w \<noteq> Running \<Longrightarrow> run_state (cerr s) w = ((), w)"
  "status w \<noteq> Running \<Longrightarrow> run_state (invoke p a ev) w = ((), w)"
  "status w \<noteq> Running \<Longrightarrow> run_state (assign f) w = ((), w)"
  by (simp_all add: call_def cerr_def invoke_def assign_def)

lemmas run_simps = run_call run_cerr run_invoke run_assign

lemma is_object_simps [simp]: "is_object (Obj r)" "\<not> is_object Null" "\<not> is_object Uninit"
  by (simp_all add: is_object_def)

lemma created_simps:
  "\<not> FAILED hr \<Longrightarrow> created hr r = Obj r" "FAILED hr \<Longrightarrow> created hr r = Null"
  by (simp_all add: created_def)

lemma FAILED_simps [simp]: "\<not> FAILED S_OK" "FAILED E_FAIL"
  by (simp_all add: FAILED_def S_OK_def E_FAIL_def)

lemma exec_bind: "exec (State_Monad.bind m k) w = exec (k (fst (run_state m w))) (exec m w)"
  by (simp add: exec_def split: prod.splits)

lemma run_state_exec: "run_state m w = (fst (run_state m w), exec m w)"
  by (simp add: exec_def)

lemma exec_simps:
  "exec (return x) w = w"
  "exec (load f) w = w"
  "exec (answer e) w = w"
  "exec (if c then m1 else m2) w = (if c then exec m1 w else exec m2 w)"
  "exec (case r of None \<Rightarrow> m1 | Some y \<Rightarrow> k y) w
     = (case r of None \<Rightarrow> exec m1 w | Some y \<Rightarrow> exec (k y) w)"
  by (simp_all add: exec_def split: option.splits)

lemma exec_call: "status w = Running \<Longrightarrow> exec (call ev) w = w\<lparr>trace := trace w @ [ev]\<rparr>"
  by (simp add: exec_def run_call)

lemma exec_assign: "status w = Running \<Longrightarrow> exec (assign f) w = f w"
  by (simp add: exec_def run_assign)

lemma exec_stopped:
  "status w \<noteq> Running \<Longrightarrow> exec (call ev) w = w"
  "status w \<noteq> Running \<Longrightarrow> exec (cerr s) w = w"
  "status w \<noteq> Running \<Longrightarrow> exec (invoke p a ev) w = w"
  "status w \<noteq> Running \<Longrightarrow> exec (assign f) w = w"
  by (simp_all add: exec_def run_stopped)

subsection \<open>Programs that keep an observation\<close>

lemma preservesD: "preserves obs m \<Longrightarrow> obs (exec m w) = obs w"
  by (simp add: preserves_def)

lemma preserves_bind:
  "preserves obs m \<Longrightarrow> (\<And>x. preserves obs (k x)) \<Longrightarrow> preserves obs (State_Monad.bind m k)"
  by (simp add: preserves_def exec_bind)

lemma preserves_return: "preserves obs (return x)"
  by (simp add: preserves_def exec_def)

lemma preserves_if:
  "(c \<Longrightarrow> preserves obs m1) \<Longrightarrow> (\<not> c \<Longrightarrow> preserves obs m2) \<Longrightarrow>
   preserves obs (if c then m1 else m2)"
  by simp

lemma preserves_option:
  "preserves obs m1 \<Longrightarrow> (\<And>x. preserves obs (m2 x)) \<Longrightarrow>
   preserves obs (case r of None \<Rightarrow> m1 | Some x \<Rightarrow> m2 x)"
  by (cases r) simp_all

lemma preserves_Let: "(\<And>x. preserves obs (f x)) \<Longrightarrow> preserves obs (Let a f)"
  by simp

lemma preserves_load: "preserves obs (load f)"
  by (simp add: preserves_def exec_def)

lemma preserves_answer: "preserves obs (answer e)"
  by (simp add: preserves_def exec_def)

lemma preserves_call:
  "(\<And>w. status w = Running \<Longrightarrow> obs (w\<lparr>trace := trace w @ [ev]\<rparr>) = obs w) \<Longrightarrow>
   preserves obs (call ev)"
  by (simp add: preserves_def exec_def call_def)

lemma preserves_cerr:
  "(\<And>w. status w = Running \<Longrightarrow> obs (w\<lparr>trace := trace w @ [Cerr s]\<rparr>) = obs w) \<Longrightarrow>
   preserves obs (cerr s)"
  by (simp add: cerr_def preserves_call)

lemma preserves_invoke:
  "(\<And>w. status w = Running \<Longrightarrow> obs (w\<lparr>trace := trace w @ [ev]\<rparr>) = obs w) \<Longrightarrow>
   (\<And>w. status w = Running \<Longrightarrow> obs (w\<lparr>status := Undefined\<rparr>) = obs w) \<Longrightarrow>
   preserves obs (invoke p a ev)"
  by (simp add: preserves_def exec_def invoke_def)

lemma preserves_assign:
  "(\<And>w. status w = Running \<Longrightarrow> obs (f w) = obs w) \<Longrightarrow> preserves obs (assign f)"
  by (simp add: preserves_def exec_def assign_def)

lemma preserves_undefined:
  "(\<And>w. status w = Running \<Longrightarrow> obs (w\<lparr>status := Undefined\<rparr>) = obs w) \<Longrightarrow>
   preserves obs undefined_behaviour"
  by (simp add: undefined_behaviour_def preserves_assign)

lemmas preserves_intros =
  preserves_bind preserves_return preserves_if preserves_option preserves_Let preserves_load
  preserves_answer preserves_call preserves_cerr preserves_invoke preserves_assign
  preserves_undefined

subsection \<open>The start-up in the environment where every call succeeds\<close>

lemma env_with_simps [simp]:
  "hr_of (env_with hr msgs) = hr" "inbox (env_with hr msgs) = msgs"
  "error_msgs (env_with hr msgs) n = None" "hwnd_created (env_with hr msgs)"
  "screen_cx (env_with hr msgs) = 1920" "screen_cy (env_with hr msgs) = 1080"
  "client_rect (env_with hr msgs) n = Some \<lparr>left = 0, top_edge = 0, right = 1920, bottom = 1080\<rparr>"
  by (simp_all add: env_with_def)

lemma MainWindow_simps [simp]:
  "status MainWindow = Running" "trace MainWindow = []" "is_fullscreen MainWindow = False"
  "hWnd MainWindow = Uninit" "pRenderTargetView MainWindow = Uninit"
  "pDevice MainWindow = Uninit" "pDeviceContext MainWindow = Uninit"
  "pSwapChain MainWindow = Uninit" "pVertexShader MainWindow = Uninit"
  "pPixelShader MainWindow = Uninit" "pInputLayout MainWindow = Uninit"
  "pVertexBuffer MainWindow = Uninit" "pConstBuffer MainWindow = Uninit"
  "Time MainWindow = 0" "userdata MainWindow = Null" "quit_posted MainWindow = False"
  "peeks MainWindow = 0"
  by (simp_all add: MainWindow_def)

lemma ready_simps [simp]:
  "status ready = Running" "length (trace ready) = 33" "is_fullscreen ready = False"
  "hWnd ready = Obj TheWindow" "pRenderTargetView ready = Obj RenderTargetView"
  "pDevice ready = Obj Device" "pDeviceContext ready = Obj DeviceContext"
  "pSwapChain ready = Obj SwapChain" "pVertexShader ready = Obj VertexShader"
  "pPixelShader ready = Obj PixelShader" "pInputLayout ready = Obj InputLayout"
  "pVertexBuffer ready = Obj VertexBuffer" "pConstBuffer ready = Obj ConstBuffer"
  "Time ready = 0" "userdata ready = Obj ThisMainWindow" "quit_posted ready = False"
  "peeks ready = 0"
  by (simp_all add: ready_def)

lemma init_succeeds:
  "(\<And>n. n < 33 \<Longrightarrow> hr n = S_OK) \<Longrightarrow> run_state (init (env_with hr msgs)) MainWindow = (True, ready)"
  by (simp add: init_def createWindow_def initD3D_def initPipeline_def initGraphics_def
        MainWindow_def ready_def run_simps Let_def created_simps
        cong: prod.case_cong_weak)

subsection \<open>Programs only add to the trace\<close>




















section \<open>The fullscreen toggle\<close>

lemma swapchain_fullscreen_append [simp]:
  "swapchain_fullscreen (tr @ evs) = foldl apply_fullscreen (swapchain_fullscreen tr) evs"
  by (simp add: swapchain_fullscreen_def)

lemma swapchain_fullscreen_filter:
  "swapchain_fullscreen tr = swapchain_fullscreen (filter is_SetFullscreenState tr)"
proof (induction tr rule: rev_induct)
  case Nil
  show ?case by simp
next
  case (snoc ev tr)
  then show ?case
    by (cases "is_SetFullscreenState ev")
       (auto simp: apply_fullscreen_def is_SetFullscreenState_def
             split: event.splits dxgi_call.splits)
qed

lemma toggleFullscreen_flag:
  "status w = Running \<Longrightarrow> is_fullscreen (exec (toggleFullscreen e) w) = (\<not> is_fullscreen w)"
  by (simp add: toggleFullscreen_def exec_def run_simps invoke_def cerr_def call_def
        split: prod.splits)

lemma toggleFullscreen_run:
  assumes "status w = Running" and "is_object (pSwapChain w)"
  shows "exec (toggleFullscreen e) w =
           w\<lparr>is_fullscreen := \<not> is_fullscreen w,
             trace := trace w
               @ Dxgi (SetFullscreenState (\<not> is_fullscreen w) (hr_of e (length (trace w))))
               # (if FAILED (hr_of e (length (trace w)))
                  then [Cerr ''Failed to toggle fullscreen mode.''] else [])\<rparr>"
  using assms by (simp add: toggleFullscreen_def exec_def run_simps cong: prod.case_cong_weak)

text \<open>
  C10. \<open>toggleFullscreen\<close> negates \<open>is_fullscreen\<close> before it calls
  \<^verbatim>\<open>SetFullscreenState\<close> with the new value. When that call fails the flag stays negated:
  the only thing that follows is the line on standard error. The swapchain keeps the state
  it had, so a flag that agreed with the swapchain before the toggle disagrees with it
  afterwards.
\<close>

theorem toggle_failure_leaves_flag_negated:
  assumes "status w = Running" and "is_object (pSwapChain w)"
    and "FAILED (hr_of e (length (trace w)))"
  shows "is_fullscreen (exec (toggleFullscreen e) w) = (\<not> is_fullscreen w) \<and>
         trace (exec (toggleFullscreen e) w) =
           trace w @ [Dxgi (SetFullscreenState (\<not> is_fullscreen w) (hr_of e (length (trace w)))),
                      Cerr ''Failed to toggle fullscreen mode.''] \<and>
         swapchain_fullscreen (trace (exec (toggleFullscreen e) w))
           = swapchain_fullscreen (trace w) \<and>
         (is_fullscreen w = swapchain_fullscreen (trace w) \<longrightarrow>
            is_fullscreen (exec (toggleFullscreen e) w)
              \<noteq> swapchain_fullscreen (trace (exec (toggleFullscreen e) w)))"
  using assms by (simp add: toggleFullscreen_run apply_fullscreen_def)

lemma swapchain_fullscreen_ready [simp]: "swapchain_fullscreen (trace ready) = False"
  by (simp add: ready_def swapchain_fullscreen_def apply_fullscreen_def)

theorem toggle_failure_leaves_flag_negated_witness:
  "status ready = Running \<and> is_object (pSwapChain ready) \<and>
   FAILED (hr_of (env_with (failing_at 33) (\<lambda>k. None)) (length (trace ready))) \<and>
   is_fullscreen ready = swapchain_fullscreen (trace ready) \<and>
   is_fullscreen (exec (toggleFullscreen (env_with (failing_at 33) (\<lambda>k. None))) ready) = True \<and>
   swapchain_fullscreen
     (trace (exec (toggleFullscreen (env_with (failing_at 33) (\<lambda>k. None))) ready)) = False"
proof -
  have run: "status ready = Running" and sc: "is_object (pSwapChain ready)"
    and fails: "FAILED (hr_of (env_with (failing_at 33) (\<lambda>k. None)) (length (trace ready)))"
    by (simp_all add: failing_at_def)
  note t = toggle_failure_leaves_flag_negated [OF run sc fails]
  from t [THEN conjunct1] have flag:
    "is_fullscreen (exec (toggleFullscreen (env_with (failing_at 33) (\<lambda>k. None))) ready) = True"
    by simp
  from t [THEN conjunct2, THEN conjunct2, THEN conjunct1] have state:
    "swapchain_fullscreen
       (trace (exec (toggleFullscreen (env_with (failing_at 33) (\<lambda>k. None))) ready)) = False"
    by simp
  from run sc fails flag state show ?thesis by simp
qed

subsection \<open>The window procedure and the fullscreen state\<close>

lemma resizeSwapChain_is_fullscreen: "preserves is_fullscreen (resizeSwapChain e a b)"
  unfolding resizeSwapChain_def releaseResources_def
  by (intro preserves_intros; simp)

lemma resizeSwapChain_fullscreen_calls:
  "preserves (\<lambda>w. filter is_SetFullscreenState (trace w)) (resizeSwapChain e a b)"
  unfolding resizeSwapChain_def releaseResources_def
  by (intro preserves_intros; simp add: is_SetFullscreenState_def)

lemma exit_process_is_fullscreen: "preserves is_fullscreen (exit_process c)"
  unfolding exit_process_def by (intro preserves_intros; simp)

lemma exit_process_trace: "preserves trace (exit_process c)"
  unfolding exit_process_def by (intro preserves_intros; simp)

lemma undefined_behaviour_is_fullscreen: "preserves is_fullscreen undefined_behaviour"
  by (intro preserves_intros; simp)

lemma undefined_behaviour_trace: "preserves trace undefined_behaviour"
  by (intro preserves_intros; simp)

lemma call_is_fullscreen: "preserves is_fullscreen (call ev)"
  by (intro preserves_intros; simp)

lemma call_fullscreen_calls:
  "\<not> is_SetFullscreenState ev \<Longrightarrow>
   preserves (\<lambda>w. filter is_SetFullscreenState (trace w)) (call ev)"
  by (intro preserves_intros; simp)

lemma WindowProc_other_message:
  assumes "\<not> (message m = WM_KEYDOWN \<and> wParam m = VK_F11)"
  shows "preserves is_fullscreen (WindowProc e m)"
    and "preserves (\<lambda>w. filter is_SetFullscreenState (trace w)) (WindowProc e m)"
  using assms unfolding WindowProc_def post_quit_message_def
  by (auto intro!: preserves_intros simp: is_SetFullscreenState_def)

lemma WindowProc_F11:
  assumes "status w = Running" and "is_object (userdata w)" and "is_object (pSwapChain w)"
    and "message m = WM_KEYDOWN" and "wParam m = VK_F11"
  shows "is_fullscreen (exec (WindowProc e m) w) = (\<not> is_fullscreen w)"
    and "filter is_SetFullscreenState (trace (exec (WindowProc e m) w)) =
         filter is_SetFullscreenState (trace w)
           @ [Dxgi (SetFullscreenState (\<not> is_fullscreen w) (hr_of e (Suc (length (trace w)))))]"
  using assms
  by (simp_all add: WindowProc_def exec_bind exec_simps Let_def
        preservesD [OF resizeSwapChain_is_fullscreen]
        preservesD [OF resizeSwapChain_fullscreen_calls]
        preservesD [OF exit_process_is_fullscreen] preservesD [OF exit_process_trace]
        preservesD [OF undefined_behaviour_is_fullscreen] preservesD [OF undefined_behaviour_trace]
        exec_call toggleFullscreen_run is_SetFullscreenState_def
        split: option.splits)

lemma key_down_simps [simp]:
  "message (key_down k) = WM_KEYDOWN" "wParam (key_down k) = k" "hwnd (key_down k) = Obj TheWindow"
  by (simp_all add: key_down_def)

lemma WindowProc_F11_failed_toggle:
  assumes "status w = Running" and "is_object (userdata w)" and "is_object (pSwapChain w)"
    and "is_object (pRenderTargetView w)" and "is_object (pDevice w)"
    and "is_object (pDeviceContext w)"
    and "message m = WM_KEYDOWN" and "wParam m = VK_F11"
    and "FAILED (hr_of e (length (trace w) + 1))"
    and "client_rect e (length (trace w) + 3) \<noteq> None"
    and "\<not> FAILED (hr_of e (length (trace w) + 5))"
    and "\<not> FAILED (hr_of e (length (trace w) + 6))"
    and "\<not> FAILED (hr_of e (length (trace w) + 7))"
  shows "status (exec (WindowProc e m) w) = Running"
  using assms
  by (auto simp add: WindowProc_def exec_def run_simps toggleFullscreen_def
        resizeSwapChain_def releaseResources_def created_simps
        exit_process_def Let_def eval_nat_numeral
        cong: prod.case_cong_weak)

text \<open>
  C1, as the claim states it, fails: in the world \<open>init\<close> leaves when every call succeeds,
  let \<^verbatim>\<open>SetFullscreenState\<close> fail when F11 is pressed. The window procedure negates the
  flag, the swapchain keeps the state it had, and the process runs on: the swapchain's state
  is not the new value of the flag.
\<close>

theorem F11_toggles_fullscreen_counterexample:
  "message (key_down VK_F11) = WM_KEYDOWN \<and> wParam (key_down VK_F11) = VK_F11 \<and>
   status ready = Running \<and>
   status (exec (WindowProc (env_with (failing_at 34) (\<lambda>k. None)) (key_down VK_F11)) ready)
     = Running \<and>
   is_fullscreen (exec (WindowProc (env_with (failing_at 34) (\<lambda>k. None)) (key_down VK_F11)) ready)
     = True \<and>
   swapchain_fullscreen
     (trace (exec (WindowProc (env_with (failing_at 34) (\<lambda>k. None)) (key_down VK_F11)) ready))
     = False"
proof -
  let ?e = "env_with (failing_at 34) (\<lambda>k. None)"
  let ?w = "exec (WindowProc ?e (key_down VK_F11)) ready"
  have run: "status ?w = Running"
    by (rule WindowProc_F11_failed_toggle) (simp_all add: failing_at_def)
  have w: "status ready = Running" "is_object (userdata ready)" "is_object (pSwapChain ready)"
    "message (key_down VK_F11) = WM_KEYDOWN" "wParam (key_down VK_F11) = VK_F11"
    by simp_all
  note toggled = WindowProc_F11 [OF w, of ?e]
  from toggled(1) have flag: "is_fullscreen ?w = True" by simp
  have "swapchain_fullscreen (trace ?w) = False"
    by (subst swapchain_fullscreen_filter, simp only: toggled(2))
       (simp add: swapchain_fullscreen_filter [symmetric] apply_fullscreen_def failing_at_def)
  with run flag show ?thesis by simp
qed

text \<open>
  C1, amended. When the window procedure handles \<^verbatim>\<open>WM_KEYDOWN\<close> with \<^verbatim>\<open>VK_F11\<close> (the process
  runs, the window's user data points to the \<open>MainWindow\<close> and the swapchain exists),
  \<open>is_fullscreen\<close> is negated and exactly one \<^verbatim>\<open>SetFullscreenState\<close> is issued, with the
  new value of the flag; when that call succeeds the swapchain's state is the new flag, and
  when it fails the swapchain keeps the state it had.
  Any other message, so any other key, leaves the flag as it was and issues no
  \<^verbatim>\<open>SetFullscreenState\<close>, whatever the world.
\<close>

theorem F11_toggles_fullscreen:
  "(message m = WM_KEYDOWN \<and> wParam m = VK_F11 \<longrightarrow>
    status w = Running \<and> is_object (userdata w) \<and> is_object (pSwapChain w) \<longrightarrow>
      is_fullscreen (exec (WindowProc e m) w) = (\<not> is_fullscreen w) \<and>
      filter is_SetFullscreenState (trace (exec (WindowProc e m) w)) =
        filter is_SetFullscreenState (trace w)
          @ [Dxgi (SetFullscreenState (\<not> is_fullscreen w) (hr_of e (Suc (length (trace w)))))] \<and>
      swapchain_fullscreen (trace (exec (WindowProc e m) w)) =
        (if FAILED (hr_of e (Suc (length (trace w))))
         then swapchain_fullscreen (trace w) else \<not> is_fullscreen w)) \<and>
   (\<not> (message m = WM_KEYDOWN \<and> wParam m = VK_F11) \<longrightarrow>
      is_fullscreen (exec (WindowProc e m) w) = is_fullscreen w \<and>
      filter is_SetFullscreenState (trace (exec (WindowProc e m) w)) =
        filter is_SetFullscreenState (trace w) \<and>
      swapchain_fullscreen (trace (exec (WindowProc e m) w)) = swapchain_fullscreen (trace w))"
proof (intro conjI impI; (elim conjE)?)
  assume f11: "message m = WM_KEYDOWN" "wParam m = VK_F11"
    and w: "status w = Running" "is_object (userdata w)" "is_object (pSwapChain w)"
  note toggled = WindowProc_F11 [OF w f11, of e]
  from toggled(1) show "is_fullscreen (exec (WindowProc e m) w) = (\<not> is_fullscreen w)" .
  from toggled(2) show "filter is_SetFullscreenState (trace (exec (WindowProc e m) w)) =
        filter is_SetFullscreenState (trace w)
          @ [Dxgi (SetFullscreenState (\<not> is_fullscreen w) (hr_of e (Suc (length (trace w)))))]" .
  show "swapchain_fullscreen (trace (exec (WindowProc e m) w)) =
          (if FAILED (hr_of e (Suc (length (trace w))))
           then swapchain_fullscreen (trace w) else \<not> is_fullscreen w)"
    by (subst swapchain_fullscreen_filter, simp only: toggled(2))
       (simp add: swapchain_fullscreen_filter [symmetric] apply_fullscreen_def)
next
  assume other: "\<not> (message m = WM_KEYDOWN \<and> wParam m = VK_F11)"
  note kept = WindowProc_other_message [OF other, of e]
  from kept(1) show "is_fullscreen (exec (WindowProc e m) w) = is_fullscreen w"
    by (rule preservesD)
  from kept(2) show calls: "filter is_SetFullscreenState (trace (exec (WindowProc e m) w)) =
        filter is_SetFullscreenState (trace w)"
    by (rule preservesD)
  show "swapchain_fullscreen (trace (exec (WindowProc e m) w)) = swapchain_fullscreen (trace w)"
    by (subst swapchain_fullscreen_filter, simp only: calls)
       (simp add: swapchain_fullscreen_filter [symmetric])
qed

theorem F11_toggles_fullscreen_witness:
  "message (key_down VK_F11) = WM_KEYDOWN \<and> wParam (key_down VK_F11) = VK_F11 \<and>
   status ready = Running \<and> is_object (userdata ready) \<and> is_object (pSwapChain ready) \<and>
   is_fullscreen ready = False \<and>
   is_fullscreen (exec (WindowProc env_ok (key_down VK_F11)) ready) = True \<and>
   swapchain_fullscreen (trace (exec (WindowProc env_ok (key_down VK_F11)) ready)) = True \<and>
   wParam (key_down 0x41) \<noteq> VK_F11 \<and>
   is_fullscreen (exec (WindowProc env_ok (key_down 0x41)) ready) = False \<and>
   swapchain_fullscreen (trace (exec (WindowProc env_ok (key_down 0x41)) ready)) = False"
proof -
  have f11: "message (key_down VK_F11) = WM_KEYDOWN \<and> wParam (key_down VK_F11) = VK_F11"
    and w: "status ready = Running \<and> is_object (userdata ready) \<and> is_object (pSwapChain ready)"
    and other: "\<not> (message (key_down 0x41) = WM_KEYDOWN \<and> wParam (key_down 0x41) = VK_F11)"
    by (simp_all add: VK_F11_def)
  from F11_toggles_fullscreen [of "key_down VK_F11" ready env_ok, THEN conjunct1, rule_format, OF f11 w]
  have toggled: "is_fullscreen (exec (WindowProc env_ok (key_down VK_F11)) ready) = True"
    "swapchain_fullscreen (trace (exec (WindowProc env_ok (key_down VK_F11)) ready)) = True"
    by (simp_all add: env_ok_def)
  from F11_toggles_fullscreen [of "key_down 0x41" ready env_ok, THEN conjunct2, rule_format, OF other]
  have kept: "is_fullscreen (exec (WindowProc env_ok (key_down 0x41)) ready) = False"
    "swapchain_fullscreen (trace (exec (WindowProc env_ok (key_down 0x41)) ready)) = False"
    by simp_all
  from f11 w other toggled kept show ?thesis by simp
qed

section \<open>Frames\<close>

lemma frame_steps_append [simp]: "frame_steps (tr @ evs) = frame_steps tr @ frame_steps evs"
  by (simp add: frame_steps_def map_filter_def)

lemma frame_steps_simps [simp]:
  "frame_steps [] = []"
  "frame_steps (ev # evs) = (case step_of ev of None \<Rightarrow> frame_steps evs | Some s \<Rightarrow> s # frame_steps evs)"
  by (simp_all add: frame_steps_def split: option.splits)

lemma step_of_simps [simp]:
  "step_of (Context (UpdateSubresource p m)) = Some Update_constants"
  "step_of (Context (ClearRenderTargetView p c)) = Some Clear_target"
  "step_of (Context (Draw n k)) = Some Draw_triangle"
  "step_of (Dxgi (Present a b hr)) = Some Present_frame"
  "step_of (Context (OMSetRenderTargets p)) = None"
  "step_of (Context (RSSetViewports x y)) = None"
  "step_of (Context (VSSetShader p)) = None"
  "step_of (Context (PSSetShader p)) = None"
  "step_of (Context (IASetInputLayout p)) = None"
  "step_of (Context (VSSetConstantBuffers p)) = None"
  "step_of (Context (IASetVertexBuffers p stride k)) = None"
  "step_of (Context (IASetPrimitiveTopology t)) = None"
  "step_of (Dxgi (SetFullscreenState f hr)) = None"
  "step_of (Dxgi (ResizeBuffers a1 a2 a3 a4 a5 hr)) = None"
  "step_of (Dxgi (GetBuffer n hr)) = None"
  "step_of (Dxgi (QueryInterface_IDXGIDevice hr)) = None"
  "step_of (Dxgi (GetAdapter hr)) = None"
  "step_of (Dxgi (GetParent_IDXGIFactory2 hr)) = None"
  "step_of (Dxgi (CreateSwapChainForHwnd p hr)) = None"
  "step_of (D3D d) = None"
  "step_of (Window wc) = None"
  "step_of (Message mc) = None"
  "step_of (Release p) = None"
  "step_of (Cerr line) = None"
  by (simp_all add: step_of_def)

lemma emitted_append [simp]: "emitted w (w\<lparr>trace := trace w @ evs\<rparr>) = evs"
  by (simp add: emitted_def)

lemma emitted_update [simp]: "emitted w (f (w\<lparr>trace := trace w @ evs\<rparr>)) = evs"
  if "\<And>s. trace (f s) = trace s"
  by (simp add: emitted_def that)

lemma renderFrame_run:
  assumes "can_render w"
  shows "run_state (renderFrame e) w =
           (S_OK,
            w\<lparr>Time := f32_add (Time w) f32_0_01,
              trace := trace w @
                [Context (UpdateSubresource (pConstBuffer w)
                           (XMMatrixTranspose (XMMatrixRotationZ (f32_add (Time w) f32_0_01)))),
                 Context (OMSetRenderTargets (pRenderTargetView w)),
                 Context (ClearRenderTargetView (pRenderTargetView w) clearColor),
                 Context (VSSetShader (pVertexShader w)),
                 Context (PSSetShader (pPixelShader w)),
                 Context (Draw 3 0),
                 Dxgi (Present 1 0 (hr_of e (length (trace w) + 6)))]\<rparr>)"
  using assms
  by (simp add: can_render_def renderFrame_def run_simps Let_def eval_nat_numeral
        cong: prod.case_cong_weak)

lemma can_render_ready [simp]: "can_render ready"
  by (simp add: can_render_def)

text \<open>
  C4, as the claim states it, fails: in the world \<open>init\<close> leaves when every call succeeds, a
  frame updates the constant buffer before it clears the render target.
\<close>

theorem frame_order_counterexample:
  "frame_steps (emitted ready (exec (renderFrame env_ok) ready))
     = [Update_constants, Clear_target, Draw_triangle, Present_frame] \<and>
   frame_steps (emitted ready (exec (renderFrame env_ok) ready))
     \<noteq> [Clear_target, Update_constants, Draw_triangle, Present_frame]"
  by (simp add: exec_def renderFrame_run emitted_def)

text \<open>
  C4, amended. Every execution of \<open>renderFrame\<close> whose calls are all defined issues these
  seven calls in this order: the constant buffer is updated with the transposed rotation
  matrix for the advanced time, the render target is bound and cleared, the shaders are set,
  three vertices are drawn and the frame is presented. The steps are update, clear, draw,
  present.
\<close>

theorem frame_order:
  assumes "can_render w"
  shows "emitted w (exec (renderFrame e) w) =
           [Context (UpdateSubresource (pConstBuffer w)
                      (XMMatrixTranspose (XMMatrixRotationZ (f32_add (Time w) f32_0_01)))),
            Context (OMSetRenderTargets (pRenderTargetView w)),
            Context (ClearRenderTargetView (pRenderTargetView w) clearColor),
            Context (VSSetShader (pVertexShader w)),
            Context (PSSetShader (pPixelShader w)),
            Context (Draw 3 0),
            Dxgi (Present 1 0 (hr_of e (length (trace w) + 6)))] \<and>
         frame_steps (emitted w (exec (renderFrame e) w))
           = [Update_constants, Clear_target, Draw_triangle, Present_frame]"
  using assms by (simp add: exec_def renderFrame_run emitted_def)

theorem frame_order_witness:
  "can_render ready \<and>
   frame_steps (emitted ready (exec (renderFrame (env_with (failing_at 39) (\<lambda>k. None))) ready))
     = [Update_constants, Clear_target, Draw_triangle, Present_frame] \<and>
   last (emitted ready (exec (renderFrame (env_with (failing_at 39) (\<lambda>k. None))) ready))
     = Dxgi (Present 1 0 E_FAIL)"
proof -
  have ok: "can_render ready" by simp
  from frame_order [OF ok, of "env_with (failing_at 39) (\<lambda>k. None)"] ok
  show ?thesis by (simp add: failing_at_def)
qed

section \<open>The window\<close>





section \<open>The main loop\<close>

lemma is_pump_call_simps [simp]:
  "is_pump_call (Message (PeekMessage r))"
  "is_pump_call (Message (TranslateMessage m))"
  "is_pump_call (Message (DispatchMessage m))"
  "\<not> is_pump_call (Message (DefWindowProc m))"
  "\<not> is_pump_call (Message (PostQuitMessage n))"
  "\<not> is_pump_call (Window wc)"
  "\<not> is_pump_call (Dxgi dc)"
  "\<not> is_pump_call (D3D d3)"
  "\<not> is_pump_call (Context cc)"
  "\<not> is_pump_call (Release p)"
  "\<not> is_pump_call (Cerr line)"
  by (simp_all add: is_pump_call_def)

lemma toggleFullscreen_frame: "preserves WindowProc_frame (toggleFullscreen e)"
  unfolding toggleFullscreen_def by (intro preserves_intros; simp add: WindowProc_frame_def)

lemma toggleFullscreen_frame_steps: "preserves (\<lambda>w. frame_steps (trace w)) (toggleFullscreen e)"
  unfolding toggleFullscreen_def by (intro preserves_intros; simp)

lemma toggleFullscreen_pump: "preserves (\<lambda>w. filter is_pump_call (trace w)) (toggleFullscreen e)"
  unfolding toggleFullscreen_def by (intro preserves_intros; simp)

lemma resizeSwapChain_frame: "preserves WindowProc_frame (resizeSwapChain e a b)"
  unfolding resizeSwapChain_def releaseResources_def
  by (intro preserves_intros; simp add: WindowProc_frame_def)

lemma resizeSwapChain_frame_steps:
  "preserves (\<lambda>w. frame_steps (trace w)) (resizeSwapChain e a b)"
  unfolding resizeSwapChain_def releaseResources_def by (intro preserves_intros; simp)

lemma resizeSwapChain_pump:
  "preserves (\<lambda>w. filter is_pump_call (trace w)) (resizeSwapChain e a b)"
  unfolding resizeSwapChain_def releaseResources_def by (intro preserves_intros; simp)

lemma WindowProc_keeps_frame: "preserves WindowProc_frame (WindowProc e m)"
  unfolding WindowProc_def post_quit_message_def exit_process_def
  by (intro preserves_intros toggleFullscreen_frame resizeSwapChain_frame;
      simp add: WindowProc_frame_def)

lemma WindowProc_frame_steps: "preserves (\<lambda>w. frame_steps (trace w)) (WindowProc e m)"
  unfolding WindowProc_def post_quit_message_def exit_process_def
  by (intro preserves_intros toggleFullscreen_frame_steps resizeSwapChain_frame_steps; simp)

lemma WindowProc_pump: "preserves (\<lambda>w. filter is_pump_call (trace w)) (WindowProc e m)"
  unfolding WindowProc_def post_quit_message_def exit_process_def
  by (intro preserves_intros toggleFullscreen_pump resizeSwapChain_pump; simp)

lemma renderFrame_keeps_frame: "preserves renderFrame_frame (renderFrame e)"
  unfolding renderFrame_def by (intro preserves_intros; simp add: renderFrame_frame_def)

lemma renderFrame_pump: "preserves (\<lambda>w. filter is_pump_call (trace w)) (renderFrame e)"
  unfolding renderFrame_def by (intro preserves_intros; simp)

lemma renderFrame_Time:
  "status w = Running \<Longrightarrow> Time (exec (renderFrame e) w) = f32_add (Time w) f32_0_01"
proof -
  assume run: "status w = Running"
  have rest: "preserves Time (do {
     t \<leftarrow> load Time;
     let RotationMatrix = XMMatrixRotationZ t;
     let cb = XMMatrixTranspose RotationMatrix;
     deviceCtx \<leftarrow> load pDeviceContext;
     constBuffer \<leftarrow> load pConstBuffer;
     invoke deviceCtx [constBuffer] (Context (UpdateSubresource constBuffer cb));
     rtv \<leftarrow> load pRenderTargetView;
     invoke deviceCtx [rtv] (Context (OMSetRenderTargets rtv));
     invoke deviceCtx [rtv] (Context (ClearRenderTargetView rtv clearColor));
     vertexShader \<leftarrow> load pVertexShader;
     invoke deviceCtx [vertexShader] (Context (VSSetShader vertexShader));
     pixelShader \<leftarrow> load pPixelShader;
     invoke deviceCtx [pixelShader] (Context (PSSetShader pixelShader));
     invoke deviceCtx [] (Context (Draw 3 0));
     swapChain \<leftarrow> load pSwapChain;
     present \<leftarrow> answer e;
     invoke swapChain [] (Dxgi (Present 1 0 present));
     return S_OK
   })"
    by (intro preserves_intros; simp)
  from run show ?thesis
    by (simp add: renderFrame_def Let_def exec_bind [where m = "assign f" for f]
          preservesD [OF rest [unfolded Let_def]] exec_assign)
qed

lemma peek_message_run:
  "status w = Running \<Longrightarrow>
   run_state (peek_message e) w =
     (next_message e w,
      w\<lparr>trace := trace w @ [Message (PeekMessage (next_message e w))],
        peeks := Suc (peeks w),
        quit_posted := (quit_posted w \<and> inbox e (peeks w) \<noteq> None)\<rparr>)"
  by (simp add: peek_message_def run_simps cong: prod.case_cong_weak)

lemma dispatch_message_keeps_frame: "preserves WindowProc_frame (dispatch_message e m)"
  unfolding dispatch_message_def
  by (intro preserves_intros WindowProc_keeps_frame; simp add: WindowProc_frame_def)

lemma dispatch_message_frame_steps:
  "preserves (\<lambda>w. frame_steps (trace w)) (dispatch_message e m)"
  unfolding dispatch_message_def by (intro preserves_intros WindowProc_frame_steps; simp)

lemma dispatch_message_pump:
  "status w = Running \<Longrightarrow>
   filter is_pump_call (trace (exec (dispatch_message e m) w))
     = filter is_pump_call (trace w) @ [Message (DispatchMessage m)]"
  by (simp add: dispatch_message_def exec_bind exec_simps exec_call
        preservesD [OF WindowProc_pump])

lemma mainloop_body_message:
  assumes "status w = Running" and "next_message e w = Some m"
  shows "fst (run_state (mainloop_body e msg) w) = m"
    and "filter is_pump_call (trace (exec (mainloop_body e msg) w)) =
           filter is_pump_call (trace w)
             @ [Message (PeekMessage (Some m)), Message (TranslateMessage m),
                Message (DispatchMessage m)]"
    and "frame_steps (trace (exec (mainloop_body e msg) w)) = frame_steps (trace w)"
    and "WindowProc_frame (exec (mainloop_body e msg) w) = WindowProc_frame (w\<lparr>peeks := Suc (peeks w)\<rparr>)"
  using assms
  by (simp_all add: mainloop_body_def exec_def peek_message_run run_call
        split_beta dispatch_message_pump [unfolded exec_def]
        preservesD [OF dispatch_message_frame_steps, unfolded exec_def]
        preservesD [OF dispatch_message_keeps_frame, unfolded exec_def])
     (simp add: WindowProc_frame_def)

lemma mainloop_body_frame:
  assumes "status w = Running" and "next_message e w = None"
  shows "fst (run_state (mainloop_body e msg) w) = msg"
    and "filter is_pump_call (trace (exec (mainloop_body e msg) w)) =
           filter is_pump_call (trace w) @ [Message (PeekMessage None)]"
    and "Time (exec (mainloop_body e msg) w) = f32_add (Time w) f32_0_01"
    and "renderFrame_frame (exec (mainloop_body e msg) w) =
           renderFrame_frame (w\<lparr>peeks := Suc (peeks w), quit_posted := False\<rparr>)"
    and "can_render w \<Longrightarrow>
         frame_steps (trace (exec (mainloop_body e msg) w)) =
           frame_steps (trace w)
             @ [Update_constants, Clear_target, Draw_triangle, Present_frame]"
proof -
  let ?w1 = "w\<lparr>trace := trace w @ [Message (PeekMessage None)], peeks := Suc (peeks w),
               quit_posted := (quit_posted w \<and> inbox e (peeks w) \<noteq> None)\<rparr>"
  have body: "exec (mainloop_body e msg) w = exec (renderFrame e) ?w1"
    and "fst (run_state (mainloop_body e msg) w) = msg"
    using assms by (simp_all add: mainloop_body_def exec_def peek_message_run split_beta)
  then show "fst (run_state (mainloop_body e msg) w) = msg" by simp
  show "filter is_pump_call (trace (exec (mainloop_body e msg) w)) =
          filter is_pump_call (trace w) @ [Message (PeekMessage None)]"
    by (simp add: body preservesD [OF renderFrame_pump])
  from assms(1) show "Time (exec (mainloop_body e msg) w) = f32_add (Time w) f32_0_01"
    by (simp add: body renderFrame_Time)
  from assms(2) have "inbox e (peeks w) = None"
    by (simp add: next_message_def split: option.splits if_splits)
  then show "renderFrame_frame (exec (mainloop_body e msg) w) =
          renderFrame_frame (w\<lparr>peeks := Suc (peeks w), quit_posted := False\<rparr>)"
    by (simp add: body preservesD [OF renderFrame_keeps_frame]) (simp add: renderFrame_frame_def)
  assume "can_render w"
  then have "can_render ?w1" by (simp add: can_render_def)
  then have "frame_steps (trace (exec (renderFrame e) ?w1)) =
          frame_steps (trace w) @ [Update_constants, Clear_target, Draw_triangle, Present_frame]"
    by (simp add: exec_def renderFrame_run)
  then show "frame_steps (trace (exec (mainloop_body e msg) w)) =
          frame_steps (trace w) @ [Update_constants, Clear_target, Draw_triangle, Present_frame]"
    by (simp only: body)
qed


lemma frame_steps_ready [simp]: "frame_steps (trace ready) = []"
  by (simp add: ready_def)


section \<open>The start-up and the loop\<close>

lemma exit_code_simps [simp]:
  "exit_code (w\<lparr>trace := tr\<rparr>) = exit_code w"
  "status w = Running \<Longrightarrow> exit_code (w\<lparr>status := Undefined\<rparr>) = exit_code w"
  "exit_code (w\<lparr>pDevice := p1\<rparr>) = exit_code w"
  "exit_code (w\<lparr>pDeviceContext := p2\<rparr>) = exit_code w"
  "exit_code (w\<lparr>pSwapChain := p3\<rparr>) = exit_code w"
  "exit_code (w\<lparr>pRenderTargetView := p4\<rparr>) = exit_code w"
  "exit_code (w\<lparr>pVertexShader := p5\<rparr>) = exit_code w"
  "exit_code (w\<lparr>pPixelShader := p6\<rparr>) = exit_code w"
  "exit_code (w\<lparr>pInputLayout := p7\<rparr>) = exit_code w"
  "exit_code (w\<lparr>pConstBuffer := p8\<rparr>) = exit_code w"
  "exit_code (w\<lparr>pVertexBuffer := p9\<rparr>) = exit_code w"
  "exit_code (w\<lparr>hWnd := p10\<rparr>) = exit_code w"
  "exit_code (w\<lparr>userdata := p11\<rparr>) = exit_code w"
  "exit_code (w\<lparr>Time := t\<rparr>) = exit_code w"
  "exit_code (w\<lparr>is_fullscreen := b\<rparr>) = exit_code w"
  "exit_code (w\<lparr>peeks := n\<rparr>) = exit_code w"
  "exit_code (w\<lparr>quit_posted := q\<rparr>) = exit_code w"
  by (simp_all add: exit_code_def)

lemma createWindow_init_frame: "preserves init_frame (createWindow e)"
  unfolding createWindow_def by (intro preserves_intros; simp add: init_frame_def)

lemma initD3D_init_frame: "preserves init_frame (initD3D e)"
  unfolding initD3D_def by (intro preserves_intros; simp add: init_frame_def)

lemma initPipeline_init_frame: "preserves init_frame (initPipeline e)"
  unfolding initPipeline_def by (intro preserves_intros; simp add: init_frame_def)

lemma initGraphics_init_frame: "preserves init_frame (initGraphics e)"
  unfolding initGraphics_def by (intro preserves_intros; simp add: init_frame_def)

lemma init_init_frame: "preserves init_frame (init e)"
  unfolding init_def
  by (intro preserves_intros createWindow_init_frame initD3D_init_frame
        initPipeline_init_frame initGraphics_init_frame; simp add: init_frame_def)

lemma init_frame_MainWindow:
  "Time (exec (init e) MainWindow) = 0" "peeks (exec (init e) MainWindow) = 0"
  "quit_posted (exec (init e) MainWindow) = False"
  "is_fullscreen (exec (init e) MainWindow) = False"
  "exit_code (exec (init e) MainWindow) = None"
  using preservesD [OF init_init_frame, of e MainWindow]
  by (simp_all add: init_frame_def MainWindow_def exit_code_def)

lemma f32_add_first: "f32_add 0 f32_0_01 = f32_0_01"
  by (simp add: f32_add_def f32_0_01_def round_to_f32_def compute_floorlog Let_def)

lemma main_mainloop:
  "main fuel e =
     map_option (exec (assign (\<lambda>s. s\<lparr>status := Returned 0\<rparr>)))
       (mainloop fuel e (exec (init e) MainWindow))"
  by (simp add: main_def exec_def split_beta split: option.splits)


section \<open>Closing the window\<close>

lemma WindowProc_destroy:
  assumes "status w = Running" and "message m = WM_DESTROY"
  shows "exec (WindowProc e m) w =
           w\<lparr>trace := trace w @ [Window (GetWindowLongPtr (userdata w)),
                                   Message (PostQuitMessage 0)],
             quit_posted := True\<rparr>"
  using assms
  by (simp add: WindowProc_def post_quit_message_def exec_def run_simps
        WM_DESTROY_def WM_KEYDOWN_def WM_SIZE_def cong: prod.case_cong_weak)

lemma toggleFullscreen_quit_posted: "preserves quit_posted (toggleFullscreen e)"
  unfolding toggleFullscreen_def by (intro preserves_intros; simp)

lemma resizeSwapChain_quit_posted: "preserves quit_posted (resizeSwapChain e a b)"
  unfolding resizeSwapChain_def releaseResources_def by (intro preserves_intros; simp)

lemma WindowProc_quit_posted_other:
  "message m \<noteq> WM_DESTROY \<Longrightarrow> preserves quit_posted (WindowProc e m)"
  unfolding WindowProc_def exit_process_def
  by (intro preserves_intros toggleFullscreen_quit_posted resizeSwapChain_quit_posted; simp)

lemma WindowProc_quit_posted:
  "quit_posted w \<Longrightarrow> quit_posted (exec (WindowProc e m) w)"
proof (cases "message m = WM_DESTROY")
  case False
  assume "quit_posted w"
  with preservesD [OF WindowProc_quit_posted_other [OF False]] show ?thesis by simp
next
  case True
  assume q: "quit_posted w"
  show ?thesis
  proof (cases "status w = Running")
    case True
    with \<open>message m = WM_DESTROY\<close> show ?thesis by (simp add: WindowProc_destroy)
  next
    case False
    then have "exec (WindowProc e m) w = w"
      by (simp add: WindowProc_def post_quit_message_def exec_def run_stopped
            undefined_behaviour_def exit_process_def toggleFullscreen_def resizeSwapChain_def
            releaseResources_def Let_def
            split: option.splits cong: prod.case_cong_weak)
    with q show ?thesis by simp
  qed
qed

lemma WindowProc_status_no_key:
  "message m \<noteq> WM_KEYDOWN \<Longrightarrow> preserves status (WindowProc e m)"
  unfolding WindowProc_def post_quit_message_def
  by (intro preserves_intros; simp)

lemma dispatch_message_quit_posted:
  "quit_posted w \<Longrightarrow> quit_posted (exec (dispatch_message e m) w)"
  by (simp add: dispatch_message_def exec_bind exec_simps WindowProc_quit_posted
        preservesD [OF preserves_call])

lemma dispatch_message_status_no_key:
  "message m \<noteq> WM_KEYDOWN \<Longrightarrow> preserves status (dispatch_message e m)"
  unfolding dispatch_message_def
  by (intro preserves_intros WindowProc_status_no_key; simp)

lemma mainloop_body_message_more:
  assumes "status w = Running" and "next_message e w = Some m"
  shows "inbox e (peeks w) \<noteq> None \<Longrightarrow> quit_posted w \<Longrightarrow>
           quit_posted (exec (mainloop_body e msg) w)"
    and "message m \<noteq> WM_KEYDOWN \<Longrightarrow> status (exec (mainloop_body e msg) w) = Running"
  using assms
  by (simp_all add: mainloop_body_def exec_def peek_message_run run_call split_beta
        dispatch_message_quit_posted [unfolded exec_def]
        preservesD [OF dispatch_message_status_no_key, unfolded exec_def])

lemma next_message_cases:
  "next_message e w =
     (case inbox e (peeks w) of Some m \<Rightarrow> Some m
      | None \<Rightarrow> if quit_posted w then Some quit_message else None)"
  by (simp add: next_message_def)

lemma quit_message_simps [simp]:
  "message quit_message = WM_QUIT" "hwnd quit_message = Null"
  by (simp_all add: quit_message_def)

lemma mainloop_while_stop:
  "message msg = WM_QUIT \<or> status w \<noteq> Running \<Longrightarrow> mainloop_while fuel e msg w = Some w"
  by (cases fuel) auto

lemma mainloop_while_pass:
  "status w = Running \<Longrightarrow> message msg \<noteq> WM_QUIT \<Longrightarrow>
   mainloop_while (Suc n) e msg w =
     mainloop_while n e (fst (run_state (mainloop_body e msg) w)) (exec (mainloop_body e msg) w)"
  by (simp add: exec_def split_beta)

declare mainloop_while.simps [simp del]



lemma run_state_unit: "run_state m w = ((), exec m w)" for m :: "unit prog"
  by (cases "run_state m w") (simp add: exec_def)





section \<open>The loop after a failed start-up\<close>


lemma init_vertex_buffer_failure:
  "fst (run_state (init (env_with (failing_at 30) msgs)) MainWindow) = False"
  "can_render (exec (init (env_with (failing_at 30) msgs)) MainWindow)"
  "pVertexBuffer (exec (init (env_with (failing_at 30) msgs)) MainWindow) = Null"
  by (simp_all add: exec_def can_render_def init_def createWindow_def initD3D_def
        initPipeline_def initGraphics_def MainWindow_def run_simps Let_def created_simps
        failing_at_def cong: prod.case_cong_weak)



section \<open>Failing calls\<close>

lemma ensuresD: "ensures Q m \<Longrightarrow> Q (fst (run_state m w)) (exec m w)"
  by (simp add: ensures_def)

lemma fst_run_bind:
  "fst (run_state (State_Monad.bind m k) w) = fst (run_state (k (fst (run_state m w))) (exec m w))"
  by (simp add: exec_def split_beta)

lemma ensures_bind: "(\<And>x. ensures Q (k x)) \<Longrightarrow> ensures Q (State_Monad.bind m k)"
  by (simp add: ensures_def exec_bind fst_run_bind del: run_state_bind)








lemma failed_resize_call_simps [simp]:
  "failed_resize_call (Dxgi (ResizeBuffers a1 a2 a3 a4 a5 hr)) = FAILED hr"
  "failed_resize_call (Dxgi (GetBuffer n hr)) = FAILED hr"
  "failed_resize_call (D3D (CreateRenderTargetView p hr)) = FAILED hr"
  by (simp_all add: failed_resize_call_def)


subsection \<open>The process exits only after a failed resize\<close>


























section \<open>Buffers\<close>

lemma mainloop_while_keeps:
  assumes "\<And>msg. keeps I (mainloop_body e msg)"
  shows "mainloop_while fuel e msg w = Some w' \<Longrightarrow> I w \<Longrightarrow> I w'"
proof (induction fuel arbitrary: msg w)
  case 0
  then show ?case by (simp add: mainloop_while.simps split: if_splits)
next
  case (Suc n)
  show ?case
  proof (cases "message msg = WM_QUIT \<or> status w \<noteq> Running")
    case True
    with Suc.prems show ?thesis by (simp add: mainloop_while_stop)
  next
    case False
    then have run: "status w = Running" and msg: "message msg \<noteq> WM_QUIT" by simp_all
    from assms Suc.prems(2) have "I (exec (mainloop_body e msg) w)"
      by (simp add: keeps_def)
    moreover from Suc.prems(1)
    have "mainloop_while n e (fst (run_state (mainloop_body e msg) w))
            (exec (mainloop_body e msg) w) = Some w'"
      by (simp add: mainloop_while_pass [OF run msg])
    ultimately show ?thesis by (rule Suc.IH [rotated])
  qed
qed

lemma main_keeps:
  assumes "\<And>msg. keeps I (mainloop_body e msg)" and "I (exec (init e) MainWindow)"
    and "\<And>w. I w \<Longrightarrow> I (w\<lparr>status := Returned 0\<rparr>)"
    and "main fuel e = Some w"
  shows "I w"
proof -
  from assms(4) obtain w2 where loop: "mainloop fuel e (exec (init e) MainWindow) = Some w2"
    and w: "w = exec (assign (\<lambda>s. s\<lparr>status := Returned 0\<rparr>)) w2"
    by (auto simp: main_mainloop)
  from loop assms(2) have inv2: "I w2"
    unfolding mainloop_def by (rule mainloop_while_keeps [OF assms(1)])
  show ?thesis
  proof (cases "status w2 = Running")
    case True
    with w inv2 assms(3) show ?thesis by (simp add: exec_assign)
  next
    case False
    with w inv2 show ?thesis by (simp add: exec_stopped)
  qed
qed

lemma keeps_preserves: "preserves obs m \<Longrightarrow> keeps (\<lambda>w. P (obs w)) m"
  by (simp add: keeps_def preserves_def)

lemma main_one_frame:
  assumes "status (exec (init e) MainWindow) = Running" and "inbox e 0 = None"
    and "status (exec (mainloop_body e no_message) (exec (init e) MainWindow)) = Running"
    and "inbox e 1 = Some q" and "message q = WM_QUIT"
  shows "\<exists>w. main (Suc (Suc 0)) e = Some w \<and> status w = Returned 0 \<and>
           trace w = trace (exec (mainloop_body e no_message)
                             (exec (mainloop_body e no_message) (exec (init e) MainWindow)))"
proof -
  let ?w = "exec (init e) MainWindow"
  let ?w1 = "exec (mainloop_body e no_message) ?w"
  let ?w2 = "exec (mainloop_body e no_message) ?w1"
  have none: "next_message e ?w = None"
    using assms(2) by (simp add: next_message_def init_frame_MainWindow)
  have msg: "message no_message \<noteq> WM_QUIT"
    by (simp add: no_message_def WM_QUIT_def)
  have pass: "fst (run_state (mainloop_body e no_message) ?w) = no_message"
    by (rule mainloop_body_frame(1) [OF assms(1) none])
  from mainloop_body_frame(4) [OF assms(1) none, of no_message]
  have "peeks ?w1 = Suc 0"
    by (simp add: renderFrame_frame_def init_frame_MainWindow)
  with assms(4) have next1: "next_message e ?w1 = Some q"
    by (simp add: next_message_def)
  from assms(5) have no_key: "message q \<noteq> WM_KEYDOWN"
    by (simp add: WM_QUIT_def WM_KEYDOWN_def)
  have got: "fst (run_state (mainloop_body e no_message) ?w1) = q"
    by (rule mainloop_body_message(1) [OF assms(3) next1])
  have run2: "status ?w2 = Running"
    by (rule mainloop_body_message_more(2) [OF assms(3) next1 no_key])
  have "mainloop_while (Suc (Suc 0)) e no_message ?w = Some ?w2"
    using assms(5)
    by (simp add: mainloop_while_pass [OF assms(1) msg] pass
          mainloop_while_pass [OF assms(3) msg] got mainloop_while_stop)
  then have "main (Suc (Suc 0)) e = Some (?w2\<lparr>status := Returned 0\<rparr>)"
    using run2 by (simp add: main_mainloop mainloop_def no_message_def exec_assign)
  then show ?thesis by simp
qed

subsection \<open>Creation\<close>

lemma creates_simps [simp]:
  "creates_buffer (D3D (CreateBuffer f b c hr))"
  "creates_constant_buffer (D3D (CreateBuffer f b c hr)) = (f = D3D11_BIND_CONSTANT_BUFFER)"
  "\<not> creates_buffer (Window wc)" "\<not> creates_buffer (Message mc)" "\<not> creates_buffer (Dxgi dc)"
  "\<not> creates_buffer (Context cc)" "\<not> creates_buffer (Release p)" "\<not> creates_buffer (Cerr line)"
  "\<not> creates_constant_buffer (Window wc)" "\<not> creates_constant_buffer (Message mc)"
  "\<not> creates_constant_buffer (Dxgi dc)" "\<not> creates_constant_buffer (Context cc)"
  "\<not> creates_constant_buffer (Release p)" "\<not> creates_constant_buffer (Cerr line)"
  "\<not> creates_buffer (D3D (D3D11CreateDevice hr))"
  "\<not> creates_buffer (D3D (D3DCompile s1 s2 hr))"
  "\<not> creates_buffer (D3D (CreateRenderTargetView p hr))"
  "\<not> creates_buffer (D3D (CreateVertexShader hr))"
  "\<not> creates_buffer (D3D (CreatePixelShader hr))"
  "\<not> creates_buffer (D3D (CreateInputLayout hr))"
  "\<not> creates_constant_buffer (D3D (D3D11CreateDevice hr))"
  "\<not> creates_constant_buffer (D3D (D3DCompile s1 s2 hr))"
  "\<not> creates_constant_buffer (D3D (CreateRenderTargetView p hr))"
  "\<not> creates_constant_buffer (D3D (CreateVertexShader hr))"
  "\<not> creates_constant_buffer (D3D (CreatePixelShader hr))"
  "\<not> creates_constant_buffer (D3D (CreateInputLayout hr))"
  by (simp_all add: creates_buffer_def creates_constant_buffer_def)















lemma toggleFullscreen_buffers: "preserves (\<lambda>w. filter creates_buffer (trace w)) (toggleFullscreen e)"
  unfolding toggleFullscreen_def by (intro preserves_intros; simp)

lemma resizeSwapChain_buffers:
  "preserves (\<lambda>w. filter creates_buffer (trace w)) (resizeSwapChain e a b)"
  unfolding resizeSwapChain_def releaseResources_def by (intro preserves_intros; simp)

lemma WindowProc_buffers: "preserves (\<lambda>w. filter creates_buffer (trace w)) (WindowProc e m)"
  unfolding WindowProc_def post_quit_message_def exit_process_def
  by (intro preserves_intros toggleFullscreen_buffers resizeSwapChain_buffers; simp)

lemma renderFrame_buffers: "preserves (\<lambda>w. filter creates_buffer (trace w)) (renderFrame e)"
  unfolding renderFrame_def by (intro preserves_intros; simp)

lemma mainloop_body_buffers:
  "preserves (\<lambda>w. filter creates_buffer (trace w)) (mainloop_body e msg)"
  unfolding mainloop_body_def dispatch_message_def peek_message_def
  by (intro preserves_intros WindowProc_buffers renderFrame_buffers; simp)

subsection \<open>Updates\<close>

lemma updated_resource_simps [simp]:
  "updated_resource (Context (UpdateSubresource p m)) = Some p"
  "updated_resource (Context (OMSetRenderTargets p)) = None"
  "updated_resource (Context (RSSetViewports f1 f2)) = None"
  "updated_resource (Context (IASetInputLayout p)) = None"
  "updated_resource (Context (VSSetConstantBuffers p)) = None"
  "updated_resource (Context (IASetVertexBuffers p u1 u2)) = None"
  "updated_resource (Context (IASetPrimitiveTopology u)) = None"
  "updated_resource (Context (ClearRenderTargetView p fs)) = None"
  "updated_resource (Context (VSSetShader p)) = None"
  "updated_resource (Context (PSSetShader p)) = None"
  "updated_resource (Context (Draw u1 u2)) = None"
  "updated_resource (Window wc) = None" "updated_resource (Message mc) = None"
  "updated_resource (Dxgi dc) = None" "updated_resource (D3D vc) = None"
  "updated_resource (Release p) = None" "updated_resource (Cerr line) = None"
  by (simp_all add: updated_resource_def)

lemma buffer_updates_simps [simp]:
  "buffer_updates [] = []"
  "buffer_updates (tr @ [ev]) =
     buffer_updates tr @ (case updated_resource ev of None \<Rightarrow> [] | Some p \<Rightarrow> [p])"
  by (simp_all add: buffer_updates_def List.map_filter_def split: option.splits)


lemma createWindow_updates: "preserves (\<lambda>w. buffer_updates (trace w)) (createWindow e)"
  unfolding createWindow_def by (intro preserves_intros; simp)

lemma initD3D_updates: "preserves (\<lambda>w. buffer_updates (trace w)) (initD3D e)"
  unfolding initD3D_def by (intro preserves_intros; simp)

lemma initPipeline_updates: "preserves (\<lambda>w. buffer_updates (trace w)) (initPipeline e)"
  unfolding initPipeline_def by (intro preserves_intros; simp)

lemma initGraphics_updates: "preserves (\<lambda>w. buffer_updates (trace w)) (initGraphics e)"
  unfolding initGraphics_def by (intro preserves_intros; simp)

lemma init_updates: "preserves (\<lambda>w. buffer_updates (trace w)) (init e)"
  unfolding init_def
  by (intro preserves_intros createWindow_updates initD3D_updates initPipeline_updates
        initGraphics_updates; simp)






lemma exec_assign_if: "exec (assign f) w = (if status w = Running then f w else w)"
  by (simp add: exec_def assign_def)

lemma exec_invoke_if:
  "exec (invoke p a ev) w =
     (if status w = Running
      then if is_object p \<and> list_all (\<lambda>x. x \<noteq> Uninit) a
           then w\<lparr>trace := trace w @ [ev]\<rparr> else w\<lparr>status := Undefined\<rparr>
      else w)"
  by (simp add: exec_def invoke_def list_all_iff)



subsection \<open>Every write goes to the constant buffer\<close>


























lemma peek_message_result: "fst (run_state (peek_message e) w) = next_message e w"
  by (simp add: peek_message_def split_beta)





lemma mainloop_body_no_message:
  assumes "status w = Running" and "next_message e w = None"
  shows "exec (mainloop_body e msg) w =
           exec (renderFrame e)
             (w\<lparr>trace := trace w @ [Message (PeekMessage None)], peeks := Suc (peeks w),
                quit_posted := False\<rparr>)"
proof -
  from assms(2) have "inbox e (peeks w) = None"
    by (simp add: next_message_def split: option.splits if_splits)
  with assms show ?thesis
    by (simp add: mainloop_body_def exec_def peek_message_run split_beta)
qed





lemma buffer_updates_ready [simp]: "buffer_updates (trace ready) = []"
  using preservesD [OF init_updates, of "env_with (\<lambda>n. S_OK) (\<lambda>k. None)" MainWindow]
  by (simp add: exec_def init_succeeds)

lemma main_frame_then_quit:
  assumes "\<And>n. n < 33 \<Longrightarrow> hr n = S_OK"
  shows "\<exists>w. main (Suc (Suc 0))
               (env_with hr (\<lambda>k. if k = Suc 0 then Some quit_message else None)) = Some w \<and>
             status w = Returned 0 \<and>
             trace w =
               trace (exec (mainloop_body
                              (env_with hr (\<lambda>k. if k = Suc 0 then Some quit_message else None))
                              no_message)
                        (exec (mainloop_body
                                 (env_with hr (\<lambda>k. if k = Suc 0 then Some quit_message else None))
                                 no_message) ready))"
proof -
  let ?e = "env_with hr (\<lambda>k. if k = Suc 0 then Some quit_message else None)"
  have start: "exec (init ?e) MainWindow = ready"
    using assms by (simp add: exec_def init_succeeds)
  have none: "next_message ?e ready = None"
    by (simp add: next_message_def)
  have run: "status ready = Running" by simp
  have "status (exec (mainloop_body ?e no_message) ready) = Running"
    by (simp only: mainloop_body_no_message [OF run none])
       (simp add: exec_def renderFrame_run can_render_def)
  with main_one_frame [of ?e quit_message] show ?thesis
    by (simp add: start)
qed


section \<open>The triangle and its rotation\<close>

subsection \<open>The steps of \<open>Time\<close>\<close>

lemma round_to_f32_up:
  assumes "t < s" and "s < t + 2 ^ 25" and "t < 2 ^ 48" and "t + 2 ^ 23 < s"
  shows "t < round_to_f32 s"
proof -
  define sh where "sh = floorlog 2 s - 24"
  define q where "q = s div 2 ^ sh"
  define r where "r = s mod 2 ^ sh"
  have s: "s = q * 2 ^ sh + r"
    unfolding q_def r_def by (rule div_mult_mod_eq [symmetric])
  have r: "r < 2 ^ sh"
    by (simp add: r_def)
  have pos: "0 < s" using assms(1) by simp
  have round: "round_to_f32 s =
      (if 2 * r < 2 ^ sh \<or> (2 * r = 2 ^ sh \<and> even q) then q * 2 ^ sh else (q + 1) * 2 ^ sh)"
    by (simp add: round_to_f32_def Let_def sh_def q_def r_def)
  show ?thesis
  proof (cases "2 * r < 2 ^ sh \<or> (2 * r = 2 ^ sh \<and> even q)")
    case False
    then have "round_to_f32 s = (q + 1) * 2 ^ sh" by (simp add: round)
    also have "\<dots> = q * 2 ^ sh + 2 ^ sh" by (simp add: algebra_simps)
    finally have "s < round_to_f32 s" using s r by simp
    with assms(1) show ?thesis by simp
  next
    case True
    then have down: "round_to_f32 s = q * 2 ^ sh" and half: "2 * r \<le> 2 ^ sh"
      by (auto simp: round)
    have "s < 2 ^ 49" using assms(2,3) by simp
    then have "floorlog 2 s \<le> 49" by (intro floorlog_leI) simp_all
    then have sh_le: "sh \<le> 25" by (simp add: sh_def)
    show ?thesis
    proof (cases "sh = 25")
      case False
      with sh_le have "sh \<le> 24" by simp
      then have "(2::nat) ^ sh \<le> 2 ^ 24" by (intro power_increasing) simp_all
      with half have "r \<le> 2 ^ 23" by simp
      with assms(4) s have "t < q * 2 ^ sh" by simp
      with down show ?thesis by simp
    next
      case True
      then have fl: "floorlog 2 s = 49" by (simp add: sh_def)
      from floorlog_bounds [of s 2] pos fl have big: "2 ^ 48 \<le> s" by simp
      from big have "(2::nat) ^ 48 \<le> q * 2 ^ 25 + r" using s True by simp
      moreover have "r < 2 ^ 25" using r True by simp
      ultimately have "2 ^ 23 \<le> q"
      proof -
        have "\<not> q < 2 ^ 23"
        proof
          assume "q < 2 ^ 23"
          then have "q + 1 \<le> 2 ^ 23" by simp
          then have "(q + 1) * 2 ^ 25 \<le> 2 ^ 23 * (2 ^ 25 :: nat)" by (rule mult_le_mono1)
          then have "q * 2 ^ 25 + 2 ^ 25 \<le> (2 ^ 48 :: nat)" by (simp add: algebra_simps)
          with \<open>r < 2 ^ 25\<close> \<open>(2::nat) ^ 48 \<le> q * 2 ^ 25 + r\<close> show False by simp
        qed
        then show ?thesis by simp
      qed
      then have "2 ^ 23 * (2 ^ 25 :: nat) \<le> q * 2 ^ 25" by (rule mult_le_mono1)
      then have "(2 ^ 48 :: nat) \<le> q * 2 ^ sh" using True by simp
      with assms(3) down show ?thesis by simp
    qed
  qed
qed

lemma f32_add_advances:
  assumes "0 \<le> t" and "t < 2 ^ 48"
  shows "t < f32_add t f32_0_01"
proof -
  let ?s = "nat (t + 10737418)"
  have "nat t < round_to_f32 ?s"
    using assms by (intro round_to_f32_up) (simp_all add: nat_add_distrib nat_less_iff)
  with assms show ?thesis
    by (simp add: f32_add_def f32_0_01_def nat_less_iff)
qed

lemma f32_add_stagnates: "f32_add (2 ^ 48) f32_0_01 = 2 ^ 48"
  by (simp add: f32_add_def f32_0_01_def round_to_f32_def compute_floorlog Let_def)

subsection \<open>The input assembler\<close>

lemma assembler_simps [simp]:
  "primitive_topology [] = None" "bound_vertex_buffer [] = None"
  "primitive_topology (tr @ evs) = foldl set_topology (primitive_topology tr) evs"
  "bound_vertex_buffer (tr @ evs) = foldl set_vertex_buffer (bound_vertex_buffer tr) evs"
  by (simp_all add: primitive_topology_def bound_vertex_buffer_def)

lemma set_topology_simps [simp]:
  "set_topology t (Context (IASetPrimitiveTopology x)) = Some x"
  "set_topology t (Context (OMSetRenderTargets p)) = t"
  "set_topology t (Context (RSSetViewports f1 f2)) = t"
  "set_topology t (Context (IASetInputLayout p)) = t"
  "set_topology t (Context (VSSetConstantBuffers p)) = t"
  "set_topology t (Context (IASetVertexBuffers p u1 u2)) = t"
  "set_topology t (Context (UpdateSubresource p m)) = t"
  "set_topology t (Context (ClearRenderTargetView p fs)) = t"
  "set_topology t (Context (VSSetShader p)) = t"
  "set_topology t (Context (PSSetShader p)) = t"
  "set_topology t (Context (Draw u1 u2)) = t"
  "set_topology t (Window wc) = t" "set_topology t (Message mc) = t"
  "set_topology t (Dxgi dc) = t" "set_topology t (D3D vc) = t"
  "set_topology t (Release p) = t" "set_topology t (Cerr line) = t"
  by (simp_all add: set_topology_def)

lemma set_vertex_buffer_simps [simp]:
  "set_vertex_buffer b (Context (IASetVertexBuffers p u1 u2)) = Some p"
  "set_vertex_buffer b (Context (OMSetRenderTargets p)) = b"
  "set_vertex_buffer b (Context (RSSetViewports f1 f2)) = b"
  "set_vertex_buffer b (Context (IASetInputLayout p)) = b"
  "set_vertex_buffer b (Context (VSSetConstantBuffers p)) = b"
  "set_vertex_buffer b (Context (IASetPrimitiveTopology x)) = b"
  "set_vertex_buffer b (Context (UpdateSubresource p m)) = b"
  "set_vertex_buffer b (Context (ClearRenderTargetView p fs)) = b"
  "set_vertex_buffer b (Context (VSSetShader p)) = b"
  "set_vertex_buffer b (Context (PSSetShader p)) = b"
  "set_vertex_buffer b (Context (Draw u1 u2)) = b"
  "set_vertex_buffer b (Window wc) = b" "set_vertex_buffer b (Message mc) = b"
  "set_vertex_buffer b (Dxgi dc) = b" "set_vertex_buffer b (D3D vc) = b"
  "set_vertex_buffer b (Release p) = b" "set_vertex_buffer b (Cerr line) = b"
  by (simp_all add: set_vertex_buffer_def)

lemma draw_call_simps [simp]:
  "draw_call (Context (Draw u1 u2))"
  "\<not> draw_call (Context (IASetPrimitiveTopology x))"
  "\<not> draw_call (Context (OMSetRenderTargets p))"
  "\<not> draw_call (Context (RSSetViewports f1 f2))"
  "\<not> draw_call (Context (IASetInputLayout p))"
  "\<not> draw_call (Context (VSSetConstantBuffers p))"
  "\<not> draw_call (Context (IASetVertexBuffers p u1 u2))"
  "\<not> draw_call (Context (UpdateSubresource p m))"
  "\<not> draw_call (Context (ClearRenderTargetView p fs))"
  "\<not> draw_call (Context (VSSetShader p))"
  "\<not> draw_call (Context (PSSetShader p))"
  "\<not> draw_call (Window wc)" "\<not> draw_call (Message mc)"
  "\<not> draw_call (Dxgi dc)" "\<not> draw_call (D3D vc)"
  "\<not> draw_call (Release p)" "\<not> draw_call (Cerr line)"
  by (simp_all add: draw_call_def)

lemma toggleFullscreen_assembler:
  "preserves (\<lambda>w. (primitive_topology (trace w), bound_vertex_buffer (trace w)))
     (toggleFullscreen e)"
  unfolding toggleFullscreen_def by (intro preserves_intros; simp)

lemma resizeSwapChain_assembler:
  "preserves (\<lambda>w. (primitive_topology (trace w), bound_vertex_buffer (trace w)))
     (resizeSwapChain e a b)"
  unfolding resizeSwapChain_def releaseResources_def by (intro preserves_intros; simp)

lemma WindowProc_assembler:
  "preserves (\<lambda>w. (primitive_topology (trace w), bound_vertex_buffer (trace w)))
     (WindowProc e m)"
  unfolding WindowProc_def post_quit_message_def exit_process_def
  by (intro preserves_intros toggleFullscreen_assembler resizeSwapChain_assembler; simp)

lemma renderFrame_assembler:
  "preserves (\<lambda>w. (primitive_topology (trace w), bound_vertex_buffer (trace w)))
     (renderFrame e)"
  unfolding renderFrame_def by (intro preserves_intros; simp)

lemma mainloop_body_assembler:
  "preserves (\<lambda>w. (primitive_topology (trace w), bound_vertex_buffer (trace w)))
     (mainloop_body e msg)"
  unfolding mainloop_body_def dispatch_message_def peek_message_def
  by (intro preserves_intros WindowProc_assembler renderFrame_assembler; simp)

lemma filter_triangles:
  "filter creates_triangle tr = filter creates_triangle (filter creates_buffer tr)"
proof -
  have "creates_triangle ev \<Longrightarrow> creates_buffer ev" for ev
    by (simp add: creates_triangle_def creates_buffer_def
          split: event.splits device_call.splits)
  then show ?thesis by (auto intro: filter_cong)
qed

lemma list_ex_triangles: "list_ex creates_triangle tr = (filter creates_triangle tr \<noteq> [])"
  by (simp add: list_ex_iff filter_empty_conv)

lemma mainloop_body_triangle: "keeps triangle_bound (mainloop_body e msg)"
  unfolding keeps_def
proof (intro allI impI)
  fix w
  assume bound: "triangle_bound w"
  have "filter creates_triangle (filter creates_buffer (trace (exec (mainloop_body e msg) w))) =
      filter creates_triangle (filter creates_buffer (trace w))"
    by (simp only: preservesD [OF mainloop_body_buffers])
  then have "list_ex creates_triangle (trace (exec (mainloop_body e msg) w)) =
      list_ex creates_triangle (trace w)"
    by (simp only: list_ex_triangles filter_triangles [symmetric])
  with bound preservesD [OF mainloop_body_assembler, of e msg w]
  show "triangle_bound (exec (mainloop_body e msg) w)"
    by (simp add: triangle_bound_def)
qed

subsection \<open>The start-up binds the triangle\<close>

lemma ensures_if:
  "(c \<Longrightarrow> ensures Q m1) \<Longrightarrow> (\<not> c \<Longrightarrow> ensures Q m2) \<Longrightarrow> ensures Q (if c then m1 else m2)"
  by simp

lemma ensures_return: "(\<And>w. Q x w) \<Longrightarrow> ensures Q (return x)"
  by (simp add: ensures_def exec_simps)

lemma initGraphics_binds:
  "ensures graphics_result
     (State_Monad.bind
        (invoke device []
           (D3D (CreateBuffer D3D11_BIND_VERTEX_BUFFER
                   (of_nat (length vertices) * sizeof_Vertex) (Some vertices) hr)))
        (\<lambda>_. State_Monad.bind (assign (\<lambda>s. s\<lparr>pVertexBuffer := created hr VertexBuffer\<rparr>))
           (\<lambda>_. if FAILED hr
                then State_Monad.bind (cerr ''Failed to create buffer'') (\<lambda>_. return hr)
                else Let sizeof_Vertex (\<lambda>stride. Let 0 (\<lambda>offset.
                  State_Monad.bind (load pDeviceContext) (\<lambda>deviceCtx.
                    State_Monad.bind (load pVertexBuffer) (\<lambda>vertexBuffer.
                      State_Monad.bind
                        (invoke deviceCtx []
                           (Context (IASetVertexBuffers vertexBuffer stride offset)))
                        (\<lambda>_. State_Monad.bind
                           (invoke deviceCtx []
                              (Context (IASetPrimitiveTopology
                                          D3D11_PRIMITIVE_TOPOLOGY_TRIANGLELIST)))
                           (\<lambda>_. return hr)))))))))"
proof (cases "FAILED hr")
  case True
  then show ?thesis
    by (simp add: ensures_def graphics_result_def fst_run_bind exec_simps del: run_state_bind)
next
  case False
  then show ?thesis
    by (simp add: ensures_def graphics_result_def fst_run_bind exec_bind exec_simps Let_def
          exec_invoke_if exec_assign_if created_simps triangle_bound_def creates_triangle_def
          del: run_state_bind)
qed

lemma initGraphics_result: "ensures graphics_result (initGraphics e)"
  unfolding initGraphics_def
  by (intro initGraphics_binds ensures_bind)

lemma init_binds:
  "ensures graphics_result m \<Longrightarrow>
   ensures init_result
     (State_Monad.bind m (\<lambda>hr. if FAILED hr then return False else return True))"
  by (simp add: ensures_def graphics_result_def init_result_def fst_run_bind exec_bind
        exec_simps del: run_state_bind)

lemma init_binds_triangle: "ensures init_result (init e)"
  unfolding init_def
  by (intro init_binds initGraphics_result ensures_bind ensures_if ensures_return)
     (simp_all add: init_result_def)

lemma main_triangle:
  assumes "fst (run_state (init e) MainWindow)" and "status (exec (init e) MainWindow) = Running"
    and "main fuel e = Some w"
  shows "triangle_bound w"
proof (rule main_keeps [OF mainloop_body_triangle _ _ assms(3)])
  from ensuresD [OF init_binds_triangle, of e MainWindow] assms(1,2)
  show "triangle_bound (exec (init e) MainWindow)"
    by (simp add: init_result_def)
next
  fix v
  assume "triangle_bound v"
  then show "triangle_bound (v\<lparr>status := Returned 0\<rparr>)"
    by (simp add: triangle_bound_def)
qed

subsection \<open>Draw calls\<close>

lemma toggleFullscreen_draws: "preserves (\<lambda>w. filter draw_call (trace w)) (toggleFullscreen e)"
  unfolding toggleFullscreen_def by (intro preserves_intros; simp)

lemma resizeSwapChain_draws:
  "preserves (\<lambda>w. filter draw_call (trace w)) (resizeSwapChain e a b)"
  unfolding resizeSwapChain_def releaseResources_def by (intro preserves_intros; simp)

lemma WindowProc_draws: "preserves (\<lambda>w. filter draw_call (trace w)) (WindowProc e m)"
  unfolding WindowProc_def post_quit_message_def exit_process_def
  by (intro preserves_intros toggleFullscreen_draws resizeSwapChain_draws; simp)

lemma dispatch_message_draws: "preserves (\<lambda>w. filter draw_call (trace w)) (dispatch_message e m)"
  unfolding dispatch_message_def by (intro preserves_intros WindowProc_draws; simp)

lemma peek_message_draws: "preserves (\<lambda>w. filter draw_call (trace w)) (peek_message e)"
  unfolding peek_message_def by (intro preserves_intros; simp)

lemma draws_after_invoke:
  "\<not> draw_call ev \<Longrightarrow>
   filter draw_call (trace (exec (invoke p a ev) w)) = filter draw_call (trace w)"
  by (simp add: exec_invoke_if)

lemma status_after_invoke:
  "status (exec (invoke p a ev) w) = Running \<longleftrightarrow>
   status w = Running \<and> is_object p \<and> list_all (\<lambda>x. x \<noteq> Uninit) a"
  by (simp add: exec_invoke_if)

lemma fields_after_invoke [simp]:
  "pDeviceContext (exec (invoke p a ev) w) = pDeviceContext w"
  "pConstBuffer (exec (invoke p a ev) w) = pConstBuffer w"
  "pRenderTargetView (exec (invoke p a ev) w) = pRenderTargetView w"
  "pVertexShader (exec (invoke p a ev) w) = pVertexShader w"
  "pPixelShader (exec (invoke p a ev) w) = pPixelShader w"
  by (simp_all add: exec_invoke_if)

lemma draws_at_invoke:
  "filter draw_call (trace (exec (invoke p a (Context (Draw n k))) w)) =
     filter draw_call (trace w) @
       (if status w = Running \<and> is_object p \<and> list_all (\<lambda>x. x \<noteq> Uninit) a
        then [Context (Draw n k)] else [])"
  by (simp add: exec_invoke_if)

lemma renderFrame_draws:
  "filter draw_call (trace (exec (renderFrame e) w)) =
     filter draw_call (trace w) @
       (if status w = Running \<and> is_object (pDeviceContext w) \<and> pConstBuffer w \<noteq> Uninit \<and>
           pRenderTargetView w \<noteq> Uninit \<and> pVertexShader w \<noteq> Uninit \<and> pPixelShader w \<noteq> Uninit
        then [Context (Draw 3 0)] else [])"
  by (simp add: renderFrame_def Let_def exec_bind exec_simps draws_after_invoke draws_at_invoke
        status_after_invoke)
     (auto simp add: exec_assign_if)

lemma mainloop_body_draws:
  "filter draw_call (trace (exec (mainloop_body e msg) w)) =
     filter draw_call (trace w) @
       (if next_message e w = None \<and> status w = Running \<and> is_object (pDeviceContext w) \<and>
           pConstBuffer w \<noteq> Uninit \<and> pRenderTargetView w \<noteq> Uninit \<and>
           pVertexShader w \<noteq> Uninit \<and> pPixelShader w \<noteq> Uninit
        then [Context (Draw 3 0)] else [])"
proof (cases "next_message e w")
  case None
  let ?w1 = "exec (peek_message e) w"
  have "preserves (\<lambda>w. (status w, pDeviceContext w, pConstBuffer w, pRenderTargetView w,
      pVertexShader w, pPixelShader w)) (peek_message e)"
    unfolding peek_message_def by (intro preserves_intros; simp)
  from preservesD [OF this, of w]
  have same: "status ?w1 = status w" "pDeviceContext ?w1 = pDeviceContext w"
    "pConstBuffer ?w1 = pConstBuffer w" "pRenderTargetView ?w1 = pRenderTargetView w"
    "pVertexShader ?w1 = pVertexShader w" "pPixelShader ?w1 = pPixelShader w"
    by simp_all
  have "exec (mainloop_body e msg) w = exec (renderFrame e) ?w1"
    using None by (simp add: mainloop_body_def exec_bind exec_simps peek_message_result)
  with None show ?thesis
    by (simp add: renderFrame_draws same preservesD [OF peek_message_draws])
next
  case (Some m)
  then have "exec (mainloop_body e msg) w =
      exec (dispatch_message e m) (exec (call (Message (TranslateMessage m)))
        (exec (peek_message e) w))"
    by (simp add: mainloop_body_def exec_bind exec_simps peek_message_result)
  moreover have "preserves (\<lambda>w. filter draw_call (trace w)) (call (Message (TranslateMessage m)))"
    by (intro preserves_intros; simp)
  then have "filter draw_call (trace (exec (call (Message (TranslateMessage m))) v)) =
      filter draw_call (trace v)" for v
    by (rule preservesD)
  ultimately show ?thesis
    using Some
    by (simp add: preservesD [OF dispatch_message_draws] preservesD [OF peek_message_draws])
qed

lemma init_vertex_buffer_failure_trace:
  "trace (exec (init (env_with (failing_at 30) msgs)) MainWindow) =
     take 30 (trace ready) @
       [D3D (CreateBuffer D3D11_BIND_VERTEX_BUFFER (of_nat (length vertices) * sizeof_Vertex)
               (Some vertices) E_FAIL),
        Cerr ''Failed to create buffer'']"
  by (simp add: exec_def init_def createWindow_def initD3D_def initPipeline_def
        initGraphics_def MainWindow_def ready_def run_simps Let_def created_simps
        failing_at_def cong: prod.case_cong_weak)

text \<open>
  C8, as the claim states it, fails: let the creation of the vertex buffer fail.
  \<open>initGraphics\<close> returns before it binds a vertex buffer and sets the topology, \<open>init\<close>
  returns \<open>False\<close>, and \<open>main\<close> renders all the same. The frame issues \<^verbatim>\<open>Draw(3, 0)\<close>
  with no vertex buffer bound and no triangle-list topology set: it draws no triangle.
\<close>

theorem one_rotating_triangle_counterexample:
  "\<exists>w. main (Suc (Suc 0))
          (env_with (failing_at 30) (\<lambda>k. if k = Suc 0 then Some quit_message else None))
        = Some w \<and>
       status w = Returned 0 \<and>
       filter draw_call (trace w) = [Context (Draw 3 0)] \<and>
       primitive_topology (trace w) = None \<and>
       bound_vertex_buffer (trace w) = None \<and>
       \<not> list_ex creates_triangle (trace w)"
proof -
  let ?e = "env_with (failing_at 30) (\<lambda>k. if k = Suc 0 then Some quit_message else None)"
  let ?v = "exec (init ?e) MainWindow"
  let ?v1 = "exec (mainloop_body ?e no_message) ?v"
  let ?v2 = "exec (mainloop_body ?e no_message) ?v1"
  note v = init_vertex_buffer_failure [of "\<lambda>k. if k = Suc 0 then Some quit_message else None"]
  note tr = init_vertex_buffer_failure_trace
    [of "\<lambda>k. if k = Suc 0 then Some quit_message else None"]
  from v(2) have run: "status ?v = Running" by (simp add: can_render_def)
  have none: "next_message ?e ?v = None"
    by (simp add: next_message_def init_frame_MainWindow)
  from v(2) have "can_render (?v\<lparr>trace := trace ?v @ [Message (PeekMessage None)],
      peeks := Suc (peeks ?v), quit_posted := False\<rparr>)"
    by (simp add: can_render_def)
  then have run1: "status ?v1 = Running"
    by (simp only: mainloop_body_no_message [OF run none])
       (simp add: exec_def renderFrame_run can_render_def)
  from main_one_frame [OF run _ run1, of quit_message] obtain w
    where ends: "main (Suc (Suc 0)) ?e = Some w" and ret: "status w = Returned 0"
      and trw: "trace w = trace ?v2"
    by auto
  from mainloop_body_frame(4) [OF run none, of no_message]
  have "peeks ?v1 = Suc 0"
    by (simp add: renderFrame_frame_def init_frame_MainWindow)
  then have next1: "next_message ?e ?v1 \<noteq> None"
    by (simp add: next_message_def)
  have start: "filter draw_call (trace ?v) = []" "primitive_topology (trace ?v) = None"
    "bound_vertex_buffer (trace ?v) = None" "filter creates_triangle (trace ?v) = []"
    by (simp_all add: tr ready_def creates_triangle_def primitive_topology_def
          bound_vertex_buffer_def)
  from v(2) have "filter draw_call (trace ?v1) = [Context (Draw 3 0)]"
    by (simp add: mainloop_body_draws none start can_render_def)
  with next1 have draws: "filter draw_call (trace w) = [Context (Draw 3 0)]"
    by (simp add: trw mainloop_body_draws)
  have assembler: "primitive_topology (trace w) = None" "bound_vertex_buffer (trace w) = None"
    using preservesD [OF mainloop_body_assembler, of ?e no_message ?v1]
      preservesD [OF mainloop_body_assembler, of ?e no_message ?v]
    by (simp_all add: trw start)
  have "filter creates_triangle (filter creates_buffer (trace w)) =
      filter creates_triangle (filter creates_buffer (trace ?v))"
    by (simp only: trw preservesD [OF mainloop_body_buffers])
  then have "\<not> list_ex creates_triangle (trace w)"
    by (simp only: list_ex_triangles filter_triangles [symmetric] start) simp
  with ends ret draws assembler show ?thesis by blast
qed

text \<open>
  C8, amended. When \<open>init\<close> has returned \<open>True\<close> in a running process, the input assembler
  holds the triangle (triangle-list topology, the vertex buffer created from the three
  \<open>vertices\<close>), and it keeps holding it through every pass of the loop, to wherever \<open>main\<close>
  ends. \<open>renderFrame\<close> issues exactly one draw call, \<^verbatim>\<open>Draw(3, 0)\<close>, when its calls up to
  there are defined, and none otherwise; the window procedure issues none. A frame of a
  running process replaces \<open>Time\<close> by the binary32 sum of \<open>Time\<close> and 0.01f, and a frame
  whose calls are all defined uploads first the transpose of the Z-rotation matrix of the new
  \<open>Time\<close>. That sum is larger than \<open>Time\<close> as long as \<open>Time\<close> is below 262144
  (\<open>2^48\<close> in units of \<open>2^-30\<close>); at 262144 the sum is \<open>Time\<close> again.
\<close>

theorem one_rotating_triangle:
  "(fst (run_state (init e) MainWindow) \<and> status (exec (init e) MainWindow) = Running \<longrightarrow>
      triangle_bound (exec (init e) MainWindow)) \<and>
   (\<forall>fuel w. fst (run_state (init e) MainWindow) \<and>
      status (exec (init e) MainWindow) = Running \<and> main fuel e = Some w \<longrightarrow>
      triangle_bound w) \<and>
   (\<forall>msg w. triangle_bound w \<longrightarrow> triangle_bound (exec (mainloop_body e msg) w)) \<and>
   (\<forall>w. filter draw_call (trace (exec (renderFrame e) w)) =
      filter draw_call (trace w) @
        (if status w = Running \<and> is_object (pDeviceContext w) \<and> pConstBuffer w \<noteq> Uninit \<and>
            pRenderTargetView w \<noteq> Uninit \<and> pVertexShader w \<noteq> Uninit \<and>
            pPixelShader w \<noteq> Uninit
         then [Context (Draw 3 0)] else [])) \<and>
   (\<forall>m w. filter draw_call (trace (exec (WindowProc e m) w)) = filter draw_call (trace w)) \<and>
   (\<forall>w. status w = Running \<longrightarrow>
      Time (exec (renderFrame e) w) = f32_add (Time w) f32_0_01) \<and>
   (\<forall>w. can_render w \<longrightarrow>
      hd (emitted w (exec (renderFrame e) w)) =
        Context (UpdateSubresource (pConstBuffer w)
                   (XMMatrixTranspose (XMMatrixRotationZ (f32_add (Time w) f32_0_01))))) \<and>
   (\<forall>t. 0 \<le> t \<and> t < 2 ^ 48 \<longrightarrow> t < f32_add t f32_0_01) \<and>
   f32_add (2 ^ 48) f32_0_01 = 2 ^ 48 \<and>
   length vertices = 3"
proof -
  have start: "fst (run_state (init e) MainWindow) \<and> status (exec (init e) MainWindow) = Running
      \<longrightarrow> triangle_bound (exec (init e) MainWindow)"
    using ensuresD [OF init_binds_triangle, of e MainWindow]
    by (simp add: init_result_def)
  have whole: "\<forall>fuel w. fst (run_state (init e) MainWindow) \<and>
      status (exec (init e) MainWindow) = Running \<and> main fuel e = Some w \<longrightarrow>
      triangle_bound w"
    by (auto intro: main_triangle)
  have pass: "\<forall>msg w. triangle_bound w \<longrightarrow> triangle_bound (exec (mainloop_body e msg) w)"
    using mainloop_body_triangle [of e] by (simp add: keeps_def)
  have draws: "\<forall>w. filter draw_call (trace (exec (renderFrame e) w)) =
      filter draw_call (trace w) @
        (if status w = Running \<and> is_object (pDeviceContext w) \<and> pConstBuffer w \<noteq> Uninit \<and>
            pRenderTargetView w \<noteq> Uninit \<and> pVertexShader w \<noteq> Uninit \<and>
            pPixelShader w \<noteq> Uninit
         then [Context (Draw 3 0)] else [])"
    by (simp add: renderFrame_draws)
  have handler: "\<forall>m w. filter draw_call (trace (exec (WindowProc e m) w)) =
      filter draw_call (trace w)"
    by (simp add: preservesD [OF WindowProc_draws])
  have time: "\<forall>w. status w = Running \<longrightarrow>
      Time (exec (renderFrame e) w) = f32_add (Time w) f32_0_01"
    by (simp add: renderFrame_Time)
  have upload: "\<forall>w. can_render w \<longrightarrow>
      hd (emitted w (exec (renderFrame e) w)) =
        Context (UpdateSubresource (pConstBuffer w)
                   (XMMatrixTranspose (XMMatrixRotationZ (f32_add (Time w) f32_0_01))))"
    by (simp add: exec_def renderFrame_run emitted_def)
  have steps: "\<forall>t. 0 \<le> t \<and> t < 2 ^ 48 \<longrightarrow> t < f32_add t f32_0_01"
    by (simp add: f32_add_advances)
  have three: "length vertices = 3"
    by (simp add: vertices_def)
  show ?thesis
    by (intro conjI) (fact start whole pass draws handler time upload steps f32_add_stagnates
        three)+
qed

theorem one_rotating_triangle_witness:
  "fst (run_state
          (init (env_with (\<lambda>n. S_OK) (\<lambda>k. if k = Suc 0 then Some quit_message else None)))
          MainWindow) \<and>
   status (exec (init (env_with (\<lambda>n. S_OK) (\<lambda>k. if k = Suc 0 then Some quit_message else None)))
             MainWindow) = Running \<and>
   (\<exists>w. main (Suc (Suc 0))
          (env_with (\<lambda>n. S_OK) (\<lambda>k. if k = Suc 0 then Some quit_message else None)) = Some w \<and>
        triangle_bound w \<and> filter draw_call (trace w) = [Context (Draw 3 0)]) \<and>
   can_render ready \<and>
   Time (exec (renderFrame
                 (env_with (\<lambda>n. S_OK) (\<lambda>k. if k = Suc 0 then Some quit_message else None)))
           ready) = f32_0_01 \<and>
   hd (emitted ready
         (exec (renderFrame
                  (env_with (\<lambda>n. S_OK) (\<lambda>k. if k = Suc 0 then Some quit_message else None)))
            ready)) =
     Context (UpdateSubresource (Obj ConstBuffer) (XMMatrixTranspose (XMMatrixRotationZ f32_0_01))) \<and>
   (0::int) < f32_add 0 f32_0_01"
proof -
  let ?e = "env_with (\<lambda>n. S_OK) (\<lambda>k. if k = Suc 0 then Some quit_message else None)"
  let ?w1 = "exec (mainloop_body ?e no_message) ready"
  note t = one_rotating_triangle [of ?e]
  have ok: "run_state (init ?e) MainWindow = (True, ready)"
    by (simp add: init_succeeds)
  then have start: "fst (run_state (init ?e) MainWindow)"
    and run: "status (exec (init ?e) MainWindow) = Running"
    by (simp_all add: exec_def)
  from main_frame_then_quit [of "\<lambda>n. S_OK"] obtain w
    where ends: "main (Suc (Suc 0)) ?e = Some w"
      and tr: "trace w = trace (exec (mainloop_body ?e no_message) ?w1)"
    by auto
  from t [THEN conjunct2, THEN conjunct1] start run ends
  have bound: "triangle_bound w" by blast
  have none: "next_message ?e ready = None"
    by (simp add: next_message_def)
  have running: "status ready = Running" by simp
  from mainloop_body_frame(4) [OF running none, of no_message]
  have "peeks ?w1 = Suc 0"
    by (simp add: renderFrame_frame_def)
  then have next1: "next_message ?e ?w1 \<noteq> None"
    by (simp add: next_message_def)
  have "filter draw_call (trace ready) = []"
    by (simp add: ready_def)
  then have "filter draw_call (trace ?w1) = [Context (Draw 3 0)]"
    by (simp add: mainloop_body_draws none)
  with next1 have draws: "filter draw_call (trace w) = [Context (Draw 3 0)]"
    by (simp add: tr mainloop_body_draws)
  from t [THEN conjunct2, THEN conjunct2, THEN conjunct2, THEN conjunct2, THEN conjunct2,
      THEN conjunct1]
  have time: "Time (exec (renderFrame ?e) ready) = f32_0_01"
    by (simp add: f32_add_first)
  from t [THEN conjunct2, THEN conjunct2, THEN conjunct2, THEN conjunct2, THEN conjunct2,
      THEN conjunct2, THEN conjunct1]
  have upload: "hd (emitted ready (exec (renderFrame ?e) ready)) =
     Context (UpdateSubresource (Obj ConstBuffer) (XMMatrixTranspose (XMMatrixRotationZ f32_0_01)))"
    by (simp add: f32_add_first)
  from t [THEN conjunct2, THEN conjunct2, THEN conjunct2, THEN conjunct2, THEN conjunct2,
      THEN conjunct2, THEN conjunct2, THEN conjunct1]
  have step: "(0::int) < f32_add 0 f32_0_01" by simp
  from start run ends bound draws time upload step show ?thesis by auto
qed

end
